theory Spec2Isabelle
  imports Complex_Main "HOL-Library.Word"
begin

section \<open>Values, exceptions and the outside world of pose_extractor.py\<close>

text \<open>
  The module is glue code around OpenCV, MediaPipe, Flask and the file system. The
  glue is modelled as written; every library call is a field of the record \<open>env\<close>
  and every effect (files, clock, standard output) is threaded through \<open>world\<close>.
\<close>

type_synonym bytes = "8 word list"

text \<open>
  The exceptions that can occur. Each carries the text that Python's \<open>str(e)\<close> yields.
  \<open>LibError\<close> stands for the errors of the libraries (\<open>cv2.error\<close>,
  \<open>binascii.Error\<close>, MediaPipe's and Werkzeug's exceptions); all of them derive from
  \<open>Exception\<close>, so \<open>except Exception\<close> catches every value of this type.
\<close>

datatype error =
    ValueError string
  | TypeError string
  | IndexError string
  | KeyError string
  | AttributeError string
  | OSError string
  | LibError string
  | Exception string

fun str_error :: "error \<Rightarrow> string" where
  "str_error (ValueError m) = m"
| "str_error (TypeError m) = m"
| "str_error (IndexError m) = m"
| "str_error (KeyError m) = m"
| "str_error (AttributeError m) = m"
| "str_error (OSError m) = m"
| "str_error (LibError m) = m"
| "str_error (Exception m) = m"

text \<open>Python values as they reach \<open>jsonify\<close> and \<open>json.dumps\<close>; a dict keeps insertion order.\<close>

datatype json =
    JNull
  | JBool bool
  | JInt int
  | JFloat real
  | JStr string
  | JList "json list"
  | JDict "(string \<times> json) list"

type_synonym dict = "(string \<times> json) list"

text \<open>\<open>d[k] = v\<close>: an existing key keeps its place, a new key goes last.\<close>

fun dict_set :: "string \<Rightarrow> json \<Rightarrow> dict \<Rightarrow> dict" where
  "dict_set k v [] = [(k, v)]"
| "dict_set k v ((k', v') # d) = (if k' = k then (k, v) # d else (k', v') # dict_set k v d)"

definition dict_get :: "dict \<Rightarrow> string \<Rightarrow> json option" where
  "dict_get d k = map_of d k"

subsection \<open>Decimal rendering of integers (\<open>str(idx)\<close> inside an f-string)\<close>

definition digit_chars :: string where
  "digit_chars = ''0123456789''"

fun str_nat :: "nat \<Rightarrow> string" where
  "str_nat n = (if n < 10 then [digit_chars ! n] else str_nat (n div 10) @ [digit_chars ! (n mod 10)])"

declare str_nat.simps [simp del]

definition str_int :: "int \<Rightarrow> string" where
  "str_int i = (if i < 0 then CHR ''-'' # str_nat (nat (- i)) else str_nat (nat i))"

text \<open>The value a string of decimal digits denotes, to say what \<open>str_nat\<close> returns.\<close>

definition digit_value :: "char \<Rightarrow> nat" where
  "digit_value c = length (takeWhile (\<lambda>d. d \<noteq> c) digit_chars)"

definition decimal_value :: "string \<Rightarrow> nat" where
  "decimal_value s = foldl (\<lambda>a c. 10 * a + digit_value c) 0 s"

subsection \<open>\<open>PoseExtractor._get_keypoint_name\<close>\<close>

definition keypoint_names :: "string list" where
  "keypoint_names =
    [''NOSE'', ''LEFT_EYE_INNER'', ''LEFT_EYE'', ''LEFT_EYE_OUTER'',
     ''RIGHT_EYE_INNER'', ''RIGHT_EYE'', ''RIGHT_EYE_OUTER'',
     ''LEFT_EAR'', ''RIGHT_EAR'', ''MOUTH_LEFT'', ''MOUTH_RIGHT'',
     ''LEFT_SHOULDER'', ''RIGHT_SHOULDER'', ''LEFT_ELBOW'', ''RIGHT_ELBOW'',
     ''LEFT_WRIST'', ''RIGHT_WRIST'', ''LEFT_PINKY'', ''RIGHT_PINKY'',
     ''LEFT_INDEX'', ''RIGHT_INDEX'', ''LEFT_THUMB'', ''RIGHT_THUMB'',
     ''LEFT_HIP'', ''RIGHT_HIP'', ''LEFT_KNEE'', ''RIGHT_KNEE'',
     ''LEFT_ANKLE'', ''RIGHT_ANKLE'', ''LEFT_HEEL'', ''RIGHT_HEEL'',
     ''LEFT_FOOT_INDEX'', ''RIGHT_FOOT_INDEX'']"

text \<open>
  \<open>xs[i]\<close> on a Python list: an index below zero counts from the end, and an index
  outside \<open>-len(xs) .. len(xs) - 1\<close> raises IndexError.
\<close>

definition list_item :: "'a list \<Rightarrow> int \<Rightarrow> error + 'a" where
  "list_item xs i =
     (if 0 \<le> i \<and> i < int (length xs) then Inr (xs ! nat i)
      else if i < 0 \<and> - int (length xs) \<le> i then Inr (xs ! nat (i + int (length xs)))
      else Inl (IndexError ''list index out of range''))"

text \<open>
  \<open>return keypoint_names[idx] if idx < len(keypoint_names) else f"UNKNOWN_{idx}"\<close>.
  The method reads nothing but its argument: the table is a literal built in its body.
\<close>

definition get_keypoint_name :: "int \<Rightarrow> error + string" where
  "get_keypoint_name idx =
     (if idx < int (length keypoint_names) then list_item keypoint_names idx
      else Inr (''UNKNOWN_'' @ str_int idx))"

section \<open>The libraries and the world\<close>

text \<open>
  An image as \<open>cv2.imread\<close> and \<open>cv2.imdecode\<close> return it with the flag IMREAD_COLOR:
  an array of shape (height, width, channels), so \<open>image.shape[2]\<close> always exists.
\<close>

record image =
  height :: nat
  width :: nat
  channels :: nat
  pixels :: bytes

text \<open>One entry of \<open>results.pose_landmarks.landmark\<close>; the floats are only passed on.\<close>

record landmark =
  lm_x :: real
  lm_y :: real
  lm_z :: real
  lm_visibility :: real

text \<open>
  The library calls of the module. \<open>codec\<close> is what \<open>cv2.imread\<close> makes of a file's
  content and \<open>imdecode\<close> is \<open>cv2.imdecode(np.frombuffer(data, np.uint8), cv2.IMREAD_COLOR)\<close>;
  both answer \<open>None\<close> for bytes no decoder accepts. \<open>process\<close> is
  \<open>self.pose.process(image_rgb).pose_landmarks\<close> with its list of landmarks, \<open>None\<close>
  when no pose is found. \<open>can_create\<close> says whether a file can be opened for writing at a
  path. \<open>clock n\<close> is the \<open>n\<close>-th reading of \<open>datetime.now()\<close>, rendered by
  \<open>isoformat\<close> and by \<open>strftime\<close> (the pattern \<open>%Y%m%d_%H%M%S\<close>). \<open>path_stem\<close>
  is \<open>os.path.splitext(os.path.basename(p))[0]\<close> and \<open>json_dumps\<close> is
  \<open>json.dumps(v, indent=2)\<close>.
\<close>

record env =
  codec :: "bytes \<Rightarrow> image option"
  imdecode :: "bytes \<Rightarrow> error + image option"
  b64decode :: "string \<Rightarrow> error + bytes"
  b64encode :: "bytes \<Rightarrow> string"
  cvtColor :: "image \<Rightarrow> image"
  process :: "image \<Rightarrow> error + landmark list option"
  draw_landmarks :: "image \<Rightarrow> landmark list \<Rightarrow> image"
  imencode :: "image \<Rightarrow> bytes"
  can_create :: "string \<Rightarrow> bool"
  clock :: "nat \<Rightarrow> nat"
  isoformat :: "nat \<Rightarrow> string"
  strftime :: "nat \<Rightarrow> string"
  path_stem :: "string \<Rightarrow> string"
  json_dumps :: "json \<Rightarrow> string"

text \<open>
  What the module changes: the files on disk, how often the clock has been read, the
  lines printed, and the calls of \<open>app.run\<close>.
\<close>

record world =
  fs :: "string \<rightharpoonup> bytes"
  reads :: nat
  stdout :: "string list"
  served :: "(string \<times> int) list"

definition now :: "env \<Rightarrow> world \<Rightarrow> nat \<times> world" where
  "now env w = (clock env (reads w), w\<lparr>reads := Suc (reads w)\<rparr>)"

definition print :: "world \<Rightarrow> string \<Rightarrow> world" where
  "print w line = w\<lparr>stdout := stdout w @ [line]\<rparr>"

definition imread :: "env \<Rightarrow> world \<Rightarrow> string \<Rightarrow> image option" where
  "imread env w path = (case fs w path of None \<Rightarrow> None | Some data \<Rightarrow> codec env data)"

text \<open>\<open>cv2.imwrite\<close> answers False and writes nothing where the file cannot be created.\<close>

definition imwrite :: "env \<Rightarrow> world \<Rightarrow> string \<Rightarrow> image \<Rightarrow> world" where
  "imwrite env w path img =
     (if can_create env path then w\<lparr>fs := (fs w)(path \<mapsto> imencode env img)\<rparr> else w)"

definition os_remove :: "world \<Rightarrow> string \<Rightarrow> (error + unit) \<times> world" where
  "os_remove w path =
     (case fs w path of
        None \<Rightarrow> (Inl (OSError (''No such file or directory: '' @ path)), w)
      | Some data \<Rightarrow> (Inr (), w\<lparr>fs := (fs w)(path := None)\<rparr>))"

definition os_path_exists :: "world \<Rightarrow> string \<Rightarrow> bool" where
  "os_path_exists w path = (fs w path \<noteq> None)"

definition read_file :: "world \<Rightarrow> string \<Rightarrow> error + bytes" where
  "read_file w path =
     (case fs w path of
        None \<Rightarrow> Inl (OSError (''No such file or directory: '' @ path))
      | Some data \<Rightarrow> Inr data)"

definition encode_text :: "string \<Rightarrow> bytes" where
  "encode_text s = map of_char s"

definition write_text :: "env \<Rightarrow> world \<Rightarrow> string \<Rightarrow> string \<Rightarrow> (error + unit) \<times> world" where
  "write_text env w path s =
     (if can_create env path then (Inr (), w\<lparr>fs := (fs w)(path \<mapsto> encode_text s)\<rparr>)
      else (Inl (OSError (''cannot open for writing: '' @ path)), w))"

subsection \<open>Uploaded files and requests\<close>

record upload =
  filename :: string
  content :: bytes

text \<open>
  \<open>request.files\<close> is a multi-dict: the parts of the form in order, each under its field
  name. \<open>get_json\<close> is what evaluating \<open>request.json\<close> gives: a parsed value, \<open>None\<close>
  (as \<open>JNull\<close>) or an exception, depending on the body and on the Flask version.
\<close>

record request =
  files :: "(string \<times> upload) list"
  get_json :: "error + json"

record response =
  body :: dict
  status :: nat

definition getlist :: "(string \<times> upload) list \<Rightarrow> string \<Rightarrow> upload list" where
  "getlist form k = map snd (filter (\<lambda>p. fst p = k) form)"

definition file_save :: "env \<Rightarrow> world \<Rightarrow> upload \<Rightarrow> string \<Rightarrow> (error + unit) \<times> world" where
  "file_save env w file dst =
     (if can_create env dst then (Inr (), w\<lparr>fs := (fs w)(dst \<mapsto> content file)\<rparr>)
      else (Inl (OSError (''cannot open for writing: '' @ dst)), w))"

subsection \<open>The operators \<open>in\<close> and \<open>[...]\<close> on a parsed JSON value\<close>

fun type_name :: "json \<Rightarrow> string" where
  "type_name JNull = ''NoneType''"
| "type_name (JBool b) = ''bool''"
| "type_name (JInt i) = ''int''"
| "type_name (JFloat r) = ''float''"
| "type_name (JStr s) = ''str''"
| "type_name (JList xs) = ''list''"
| "type_name (JDict d) = ''dict''"

fun has_prefix :: "string \<Rightarrow> string \<Rightarrow> bool" where
  "has_prefix [] s = True"
| "has_prefix (c # cs) [] = False"
| "has_prefix (c # cs) (d # ds) = (c = d \<and> has_prefix cs ds)"

fun str_contains :: "string \<Rightarrow> string \<Rightarrow> bool" where
  "str_contains k [] = (k = [])"
| "str_contains k (c # cs) = (has_prefix k (c # cs) \<or> str_contains k cs)"

text \<open>\<open>k in v\<close> for a string \<open>k\<close>: a key of a dict, an element of a list, a substring of a string.\<close>

fun json_contains :: "json \<Rightarrow> string \<Rightarrow> error + bool" where
  "json_contains (JDict d) k = Inr (map_of d k \<noteq> None)"
| "json_contains (JList xs) k = Inr (JStr k \<in> set xs)"
| "json_contains (JStr s) k = Inr (str_contains k s)"
| "json_contains v k = Inl (TypeError (''argument of type '' @ type_name v @ '' is not iterable''))"

text \<open>\<open>v[k]\<close> for a string \<open>k\<close>, used only after \<open>k in v\<close> held.\<close>

fun json_item :: "json \<Rightarrow> string \<Rightarrow> error + json" where
  "json_item (JDict d) k = (case map_of d k of None \<Rightarrow> Inl (KeyError k) | Some v \<Rightarrow> Inr v)"
| "json_item v k = Inl (TypeError (type_name v @ '' indices must be integers''))"

section \<open>The class \<open>PoseExtractor\<close>\<close>

subsection \<open>Building the result dictionary\<close>

definition keypoint :: "int \<Rightarrow> string \<Rightarrow> landmark \<Rightarrow> json" where
  "keypoint idx name l =
     JDict [(''id'', JInt idx), (''name'', JStr name),
            (''x'', JFloat (lm_x l)), (''y'', JFloat (lm_y l)), (''z'', JFloat (lm_z l)),
            (''visibility'', JFloat (lm_visibility l))]"

text \<open>
  \<open>for idx, landmark in enumerate(results.pose_landmarks.landmark)\<close>, appending one
  keypoint per landmark; \<open>idx\<close> is the next index and \<open>acc\<close> the list built so far.
\<close>

fun keypoints_loop :: "int \<Rightarrow> landmark list \<Rightarrow> json list \<Rightarrow> error + json list" where
  "keypoints_loop idx [] acc = Inr acc"
| "keypoints_loop idx (l # ls) acc =
     (case get_keypoint_name idx of
        Inl e \<Rightarrow> Inl e
      | Inr name \<Rightarrow> keypoints_loop (idx + 1) ls (acc @ [keypoint idx name l]))"

text \<open>
  Lines 50 to 75, and again 110 to 134 with the same text: the dictionary literal (which
  reads the clock once), then the loop when \<open>results.pose_landmarks\<close> is truthy. The
  landmark list is a protocol-buffer message object, truthy whenever it is not \<open>None\<close>.
\<close>

definition keypoints_data ::
  "env \<Rightarrow> world \<Rightarrow> image \<Rightarrow> landmark list option \<Rightarrow> (error + dict) \<times> world" where
  "keypoints_data env w img pose_landmarks =
     (let (t, w1) = now env w in
      case (case pose_landmarks of None \<Rightarrow> Inr [] | Some ls \<Rightarrow> keypoints_loop 0 ls []) of
        Inl e \<Rightarrow> (Inl e, w1)
      | Inr kps \<Rightarrow>
          (Inr [(''success'', JBool True),
                (''timestamp'', JStr (isoformat env t)),
                (''image_info'',
                   JDict [(''width'', JInt (int (width img))),
                          (''height'', JInt (int (height img))),
                          (''channels'', JInt (int (channels img)))]),
                (''keypoints'', JList kps),
                (''pose_detected'', JBool (pose_landmarks \<noteq> None))], w1))"

text \<open>The dictionary both \<open>except Exception as e\<close> handlers of the class return.\<close>

definition failure_dict :: "env \<Rightarrow> world \<Rightarrow> error \<Rightarrow> dict \<times> world" where
  "failure_dict env w e =
     (let (t, w1) = now env w in
      ([(''success'', JBool False), (''error'', JStr (str_error e)),
        (''timestamp'', JStr (isoformat env t))], w1))"

subsection \<open>\<open>extract_keypoints\<close>\<close>

definition extract_keypoints_try :: "env \<Rightarrow> world \<Rightarrow> string \<Rightarrow> (error + dict) \<times> world" where
  "extract_keypoints_try env w image_path =
     (case imread env w image_path of
        None \<Rightarrow> (Inl (ValueError (''Could not read image from '' @ image_path)), w)
      | Some img \<Rightarrow>
          (case process env (cvtColor env img) of
             Inl e \<Rightarrow> (Inl e, w)
           | Inr pose_landmarks \<Rightarrow> keypoints_data env w img pose_landmarks))"

definition extract_keypoints :: "env \<Rightarrow> world \<Rightarrow> string \<Rightarrow> dict \<times> world" where
  "extract_keypoints env w image_path =
     (case extract_keypoints_try env w image_path of
        (Inr d, w1) \<Rightarrow> (d, w1)
      | (Inl e, w1) \<Rightarrow> failure_dict env w1 e)"

subsection \<open>\<open>extract_keypoints_from_base64\<close>\<close>

text \<open>\<open>s.split(sep)\<close> for a separator of one character.\<close>

fun split_str :: "char \<Rightarrow> string \<Rightarrow> string list" where
  "split_str sep [] = [[]]"
| "split_str sep (c # cs) =
     (if c = sep then [] # split_str sep cs
      else (case split_str sep cs of [] \<Rightarrow> [[c]] | p # ps \<Rightarrow> (c # p) # ps))"

text \<open>
  \<open>base64_image.split(',')[1] if ',' in base64_image else base64_image\<close>, the argument of
  \<open>base64.b64decode\<close>. The annotation says \<open>str\<close>, but the value comes from the request's
  JSON: on a list or dict that holds \<open>','\<close> the call of \<open>split\<close> raises AttributeError,
  and \<open>b64decode\<close> raises TypeError on any other value that is not a string.
\<close>

definition base64_payload :: "json \<Rightarrow> error + string" where
  "base64_payload base64_image =
     (case json_contains base64_image '','' of
        Inl e \<Rightarrow> Inl e
      | Inr True \<Rightarrow>
          (case base64_image of
             JStr s \<Rightarrow> list_item (split_str CHR '','' s) 1
           | _ \<Rightarrow> Inl (AttributeError (type_name base64_image @ '' object has no attribute split'')))
      | Inr False \<Rightarrow>
          (case base64_image of
             JStr s \<Rightarrow> Inr s
           | _ \<Rightarrow> Inl (TypeError (''argument should be a bytes-like object or ASCII string, not ''
                               @ type_name base64_image))))"

definition extract_keypoints_from_base64_try ::
  "env \<Rightarrow> world \<Rightarrow> json \<Rightarrow> (error + dict) \<times> world" where
  "extract_keypoints_from_base64_try env w base64_image =
     (case base64_payload base64_image of
        Inl e \<Rightarrow> (Inl e, w)
      | Inr payload \<Rightarrow>
          (case b64decode env payload of
             Inl e \<Rightarrow> (Inl e, w)
           | Inr image_data \<Rightarrow>
               (case imdecode env image_data of
                  Inl e \<Rightarrow> (Inl e, w)
                | Inr None \<Rightarrow> (Inl (ValueError ''Could not decode base64 image''), w)
                | Inr (Some img) \<Rightarrow>
                    (case process env (cvtColor env img) of
                       Inl e \<Rightarrow> (Inl e, w)
                     | Inr pose_landmarks \<Rightarrow> keypoints_data env w img pose_landmarks))))"

definition extract_keypoints_from_base64 :: "env \<Rightarrow> world \<Rightarrow> json \<Rightarrow> dict \<times> world" where
  "extract_keypoints_from_base64 env w base64_image =
     (case extract_keypoints_from_base64_try env w base64_image of
        (Inr d, w1) \<Rightarrow> (d, w1)
      | (Inl e, w1) \<Rightarrow> failure_dict env w1 e)"

subsection \<open>\<open>visualize_pose\<close>, with \<open>output_path\<close> left at its default as every caller does\<close>

text \<open>
  \<open>cv2.imread\<close> may give \<open>None\<close>, on which \<open>cv2.cvtColor\<close> raises \<open>cv2.error\<close> (its text
  is shortened here). Drawing changes \<open>image\<close> in place; the name of the output file
  reads the clock once.
\<close>

definition visualize_pose_try :: "env \<Rightarrow> world \<Rightarrow> string \<Rightarrow> (error + string) \<times> world" where
  "visualize_pose_try env w image_path =
     (case imread env w image_path of
        None \<Rightarrow> (Inl (LibError ''(-215:Assertion failed) !_src.empty() in function cvtColor''), w)
      | Some img \<Rightarrow>
          (case process env (cvtColor env img) of
             Inl e \<Rightarrow> (Inl e, w)
           | Inr pose_landmarks \<Rightarrow>
               (let drawn = (case pose_landmarks of None \<Rightarrow> img
                             | Some ls \<Rightarrow> draw_landmarks env img ls);
                    base_name = path_stem env image_path;
                    (t, w1) = now env w;
                    output_path = ''pose_visualization_'' @ base_name @ ''_''
                                    @ strftime env t @ ''.jpg''
                in (Inr output_path, imwrite env w1 output_path drawn))))"

definition visualize_pose :: "env \<Rightarrow> world \<Rightarrow> string \<Rightarrow> (error + string) \<times> world" where
  "visualize_pose env w image_path =
     (case visualize_pose_try env w image_path of
        (Inr output_path, w1) \<Rightarrow> (Inr output_path, w1)
      | (Inl e, w1) \<Rightarrow> (Inl (Exception (''Visualization failed: '' @ str_error e)), w1))"

section \<open>The Flask handlers\<close>

definition json_response :: "dict \<Rightarrow> nat \<Rightarrow> response" where
  "json_response d code = \<lparr>body = d, status = code\<rparr>"

text \<open>The \<open>except Exception as e\<close> clause the three POST handlers end with.\<close>

definition error_500 :: "env \<Rightarrow> world \<Rightarrow> error \<Rightarrow> response \<times> world" where
  "error_500 env w e = (let (d, w1) = failure_dict env w e in (json_response d 500, w1))"

definition temp_name :: "env \<Rightarrow> string \<Rightarrow> nat \<Rightarrow> string \<Rightarrow> string" where
  "temp_name env prefix t name = prefix @ strftime env t @ ''_'' @ name"

subsection \<open>POST /extract-pose\<close>

definition extract_pose_api_try :: "env \<Rightarrow> world \<Rightarrow> request \<Rightarrow> (error + response) \<times> world" where
  "extract_pose_api_try env w req =
     (case map_of (files req) ''image'' of
        Some file \<Rightarrow>
          (if filename file = [] then
             (Inr (json_response [(''error'', JStr ''No file selected'')] 400), w)
           else
             (let (t, w1) = now env w;
                  temp_path = temp_name env ''temp_'' t (filename file)
              in case file_save env w1 file temp_path of
                   (Inl e, w2) \<Rightarrow> (Inl e, w2)
                 | (Inr u, w2) \<Rightarrow>
                     (let (result, w3) = extract_keypoints env w2 temp_path
                      in case os_remove w3 temp_path of
                           (Inl e, w4) \<Rightarrow> (Inl e, w4)
                         | (Inr u', w4) \<Rightarrow> (Inr (json_response result 200), w4))))
      | None \<Rightarrow>
          (case get_json req of
             Inl e \<Rightarrow> (Inl e, w)
           | Inr j \<Rightarrow>
               (case json_contains j ''base64_image'' of
                  Inl e \<Rightarrow> (Inl e, w)
                | Inr True \<Rightarrow>
                    (case json_item j ''base64_image'' of
                       Inl e \<Rightarrow> (Inl e, w)
                     | Inr base64_image \<Rightarrow>
                         (let (result, w1) = extract_keypoints_from_base64 env w base64_image
                          in (Inr (json_response result 200), w1)))
                | Inr False \<Rightarrow>
                    (Inr (json_response
                           [(''error'',
                             JStr ''No image provided. Use 'image' file or 'base64_image' in JSON'')]
                           400), w))))"

definition extract_pose_api :: "env \<Rightarrow> world \<Rightarrow> request \<Rightarrow> response \<times> world" where
  "extract_pose_api env w req =
     (case extract_pose_api_try env w req of
        (Inr r, w1) \<Rightarrow> (r, w1)
      | (Inl e, w1) \<Rightarrow> error_500 env w1 e)"

subsection \<open>POST /visualize-pose\<close>

definition visualize_pose_api_try :: "env \<Rightarrow> world \<Rightarrow> request \<Rightarrow> (error + response) \<times> world" where
  "visualize_pose_api_try env w req =
     (case map_of (files req) ''image'' of
        None \<Rightarrow> (Inr (json_response [(''error'', JStr ''No image file provided'')] 400), w)
      | Some file \<Rightarrow>
          (if filename file = [] then
             (Inr (json_response [(''error'', JStr ''No file selected'')] 400), w)
           else
             (let (t, w1) = now env w;
                  temp_input = temp_name env ''temp_input_'' t (filename file)
              in case file_save env w1 file temp_input of
                   (Inl e, w2) \<Rightarrow> (Inl e, w2)
                 | (Inr u, w2) \<Rightarrow>
                     (case visualize_pose env w2 temp_input of
                        (Inl e, w3) \<Rightarrow> (Inl e, w3)
                      | (Inr output_path, w3) \<Rightarrow>
                          (case read_file w3 output_path of
                             Inl e \<Rightarrow> (Inl e, w3)
                           | Inr data \<Rightarrow>
                               (case os_remove w3 temp_input of
                                  (Inl e, w4) \<Rightarrow> (Inl e, w4)
                                | (Inr u', w4) \<Rightarrow>
                                    (case os_remove w4 output_path of
                                       (Inl e, w5) \<Rightarrow> (Inl e, w5)
                                     | (Inr u'', w5) \<Rightarrow>
                                         (let (t', w6) = now env w5
                                          in (Inr (json_response
                                                [(''success'', JBool True),
                                                 (''visualization'',
                                                  JStr (''data:image/jpeg;base64,''
                                                        @ b64encode env data)),
                                                 (''timestamp'', JStr (isoformat env t'))]
                                                200), w6)))))))))"

definition visualize_pose_api :: "env \<Rightarrow> world \<Rightarrow> request \<Rightarrow> response \<times> world" where
  "visualize_pose_api env w req =
     (case visualize_pose_api_try env w req of
        (Inr r, w1) \<Rightarrow> (r, w1)
      | (Inl e, w1) \<Rightarrow> error_500 env w1 e)"

subsection \<open>POST /batch-extract\<close>

text \<open>The \<open>for file in files\<close> loop; \<open>results\<close> is the list appended to.\<close>

fun batch_loop :: "env \<Rightarrow> world \<Rightarrow> upload list \<Rightarrow> dict list \<Rightarrow> (error + dict list) \<times> world" where
  "batch_loop env w [] results = (Inr results, w)"
| "batch_loop env w (file # rest) results =
     (if filename file = [] then batch_loop env w rest results
      else
        (let (t, w1) = now env w;
             temp_path = temp_name env ''temp_'' t (filename file)
         in case file_save env w1 file temp_path of
              (Inl e, w2) \<Rightarrow> (Inl e, w2)
            | (Inr u, w2) \<Rightarrow>
                (let (result, w3) = extract_keypoints env w2 temp_path;
                     result' = dict_set ''filename'' (JStr (filename file)) result
                 in case os_remove w3 temp_path of
                      (Inl e, w4) \<Rightarrow> (Inl e, w4)
                    | (Inr u', w4) \<Rightarrow> batch_loop env w4 rest (results @ [result']))))"

definition batch_extract_api_try :: "env \<Rightarrow> world \<Rightarrow> request \<Rightarrow> (error + response) \<times> world" where
  "batch_extract_api_try env w req =
     (if map_of (files req) ''images'' = None then
        (Inr (json_response [(''error'', JStr ''No images provided'')] 400), w)
      else
        (case batch_loop env w (getlist (files req) ''images'') [] of
           (Inl e, w1) \<Rightarrow> (Inl e, w1)
         | (Inr results, w1) \<Rightarrow>
             (let (t, w2) = now env w1
              in (Inr (json_response
                        [(''success'', JBool True),
                         (''total_processed'', JInt (int (length results))),
                         (''results'', JList (map JDict results)),
                         (''timestamp'', JStr (isoformat env t))]
                        200), w2))))"

definition batch_extract_api :: "env \<Rightarrow> world \<Rightarrow> request \<Rightarrow> response \<times> world" where
  "batch_extract_api env w req =
     (case batch_extract_api_try env w req of
        (Inr r, w1) \<Rightarrow> (r, w1)
      | (Inl e, w1) \<Rightarrow> error_500 env w1 e)"

section \<open>The command line: \<open>main\<close>\<close>

datatype run_mode = Api | Cli

text \<open>The parsed arguments; \<open>--mode\<close> has the choices api and cli, api by default.\<close>

record args =
  mode :: run_mode
  image_arg :: "string option"
  output_arg :: "string option"
  visualize_arg :: bool
  port :: int
  host :: string

text \<open>A string option is falsy when it is \<open>None\<close> or the empty string.\<close>

fun truthy :: "string option \<Rightarrow> string option" where
  "truthy None = None"
| "truthy (Some s) = (if s = [] then None else Some s)"

text \<open>
  The lines 367 to 376, once the image is known to exist: the result goes to the output
  file or to standard output, then the visualization is made when asked for. Nothing
  here is inside a \<open>try\<close>: an exception leaves \<open>main\<close> (the value \<open>Some e\<close>).
\<close>

definition main_output :: "env \<Rightarrow> world \<Rightarrow> args \<Rightarrow> dict \<Rightarrow> error option \<times> world" where
  "main_output env w a result =
     (case truthy (output_arg a) of
        Some path \<Rightarrow>
          (case write_text env w path (json_dumps env (JDict result)) of
             (Inl e, w1) \<Rightarrow> (Some e, w1)
           | (Inr u, w1) \<Rightarrow> (None, print w1 (''Results saved to: '' @ path)))
      | None \<Rightarrow> (None, print w (json_dumps env (JDict result))))"

definition main_visualize :: "env \<Rightarrow> world \<Rightarrow> args \<Rightarrow> string \<Rightarrow> error option \<times> world" where
  "main_visualize env w a image_path =
     (if visualize_arg a then
        (case visualize_pose env w image_path of
           (Inl e, w1) \<Rightarrow> (Some e, w1)
         | (Inr viz_path, w1) \<Rightarrow> (None, print w1 (''Visualization saved to: '' @ viz_path)))
      else (None, w))"

definition main :: "env \<Rightarrow> world \<Rightarrow> args \<Rightarrow> error option \<times> world" where
  "main env w a =
     (case mode a of
        Api \<Rightarrow>
          (let w1 = foldl print w
                 [''Starting MediaPipe Pose API server on '' @ host a @ '':'' @ str_int (port a),
                  ''Endpoints:'',
                  ''  GET  /health - Health check'',
                  ''  POST /extract-pose - Extract keypoints from image'',
                  ''  POST /visualize-pose - Create pose visualization'',
                  ''  POST /batch-extract - Batch process multiple images'']
           in (None, w1\<lparr>served := served w1 @ [(host a, port a)]\<rparr>))
      | Cli \<Rightarrow>
          (case truthy (image_arg a) of
             None \<Rightarrow> (None, print w ''Error: --image is required for CLI mode'')
           | Some image_path \<Rightarrow>
               (if \<not> os_path_exists w image_path then
                  (None, print w (''Error: Image file not found: '' @ image_path))
                else
                  (let w1 = print w (''Processing image: '' @ image_path);
                       (result, w2) = extract_keypoints env w1 image_path
                   in case main_output env w2 a result of
                        (Some e, w3) \<Rightarrow> (Some e, w3)
                      | (None, w3) \<Rightarrow> main_visualize env w3 a image_path))))"

section \<open>Sample inputs and auxiliary notions for the properties\<close>

text \<open>The value under \<open>id\<close> of a keypoint dictionary.\<close>

definition keypoint_id :: "json \<Rightarrow> json option" where
  "keypoint_id k = (case k of JDict d \<Rightarrow> dict_get d ''id'' | _ \<Rightarrow> None)"

text \<open>
  The contract of the pose model (spec 4.2): where it finds a pose it returns exactly 33
  landmarks; where it finds none it returns \<open>None\<close>.
\<close>

definition pose_contract :: "env \<Rightarrow> bool" where
  "pose_contract env = (\<forall>img ls. process env img = Inr (Some ls) \<longrightarrow> length ls = 33)"

text \<open>
  A small concrete environment to run the model on: the only decodable image is the
  two bytes FF D8, files can be created anywhere but in a sub-directory, and the clock
  counts its readings.
\<close>

definition sample_image :: image where
  "sample_image = \<lparr>height = 2, width = 3, channels = 3, pixels = []\<rparr>"

definition sample_landmarks :: "landmark list" where
  "sample_landmarks =
     map (\<lambda>i. \<lparr>lm_x = real i / 32, lm_y = 1 / 4, lm_z = 0, lm_visibility = 1\<rparr>) [0..<33]"

definition sample_env :: env where
  "sample_env =
     \<lparr>codec = (\<lambda>b. if b = [0xFF, 0xD8] then Some sample_image else None),
      imdecode = (\<lambda>b. if b = [] then Inl (LibError ''(-215:Assertion failed) !buf.empty()'')
                      else if b = [0xFF, 0xD8] then Inr (Some sample_image) else Inr None),
      b64decode = (\<lambda>s. if s = [] then Inr []
                       else if s = ''/9g='' then Inr [0xFF, 0xD8]
                       else if s = ''QUJD'' then Inr [0x41, 0x42, 0x43]
                       else if s = ''QUJD,REVG'' then Inr [0x41, 0x42, 0x43, 0x44, 0x45, 0x46]
                       else Inl (LibError ''Incorrect padding'')),
      b64encode = (\<lambda>b. if b = [0xFF, 0xD8] then ''/9g='' else []),
      cvtColor = (\<lambda>i. i),
      process = (\<lambda>i. Inr (Some sample_landmarks)),
      draw_landmarks = (\<lambda>i ls. i),
      imencode = (\<lambda>i. [0xFF, 0xD8]),
      can_create = (\<lambda>p. CHR ''/'' \<notin> set p),
      clock = (\<lambda>n. n),
      isoformat = str_nat,
      strftime = str_nat,
      path_stem = (\<lambda>p. takeWhile (\<lambda>c. c \<noteq> CHR ''.'') p),
      json_dumps = (\<lambda>j. ''{}'')\<rparr>"

text \<open>The same environment with a pose model that finds no pose in any image.\<close>

definition blank_env :: env where
  "blank_env = sample_env\<lparr>process := (\<lambda>i. Inr None)\<rparr>"

definition sample_world :: world where
  "sample_world =
     \<lparr>fs = [''a.jpg'' \<mapsto> [0xFF, 0xD8], ''notes.txt'' \<mapsto> [0x41, 0x42, 0x43]],
      reads = 0, stdout = [], served = []\<rparr>"

text \<open>
  Batch uploads: one with an entry of empty filename between two named ones, and one
  whose filename names a sub-directory that does not exist.
\<close>

definition sample_batch :: request where
  "sample_batch =
     \<lparr>files = [(''images'', \<lparr>filename = ''a.jpg'', content = [0xFF, 0xD8]\<rparr>),
               (''images'', \<lparr>filename = [], content = []\<rparr>),
               (''images'', \<lparr>filename = ''notes.txt'', content = [0x41, 0x42, 0x43]\<rparr>)],
      get_json = Inr JNull\<rparr>"

definition nested_batch :: request where
  "nested_batch =
     \<lparr>files = [(''images'', \<lparr>filename = ''sub/a.jpg'', content = [0xFF, 0xD8]\<rparr>)],
      get_json = Inr JNull\<rparr>"

text \<open>
  Command-line arguments: \<open>--mode cli --image notes.txt --visualize\<close>.
\<close>

definition sample_args :: args where
  "sample_args =
     \<lparr>mode = Cli, image_arg = Some ''notes.txt'', output_arg = None, visualize_arg = True,
      port = 5000, host = ''0.0.0.0''\<rparr>"

section \<open>Auxiliary lemmas\<close>

subsection \<open>Decimal digits, splitting, and the keypoint loop\<close>

lemma length_keypoint_names: "length keypoint_names = 33"
  by (simp add: keypoint_names_def)

lemma digit_value_nth: "d < 10 \<Longrightarrow> digit_value (digit_chars ! d) = d"
proof -
  assume "d < 10"
  then have "d \<in> {0, 1, 2, 3, 4, 5, 6, 7, 8, 9}" by auto
  then show ?thesis
    by (auto simp: digit_value_def digit_chars_def)
qed

lemma decimal_value_snoc: "decimal_value (s @ [c]) = 10 * decimal_value s + digit_value c"
  by (simp add: decimal_value_def)

lemma decimal_value_str_nat: "decimal_value (str_nat n) = n"
proof (induction n rule: str_nat.induct)
  case (1 n)
  show ?case
  proof (cases "n < 10")
    case True
    then show ?thesis
      by (subst str_nat.simps) (simp add: decimal_value_def digit_value_nth)
  next
    case False
    then have "decimal_value (str_nat (n div 10)) = n div 10"
      using "1" by simp
    with False show ?thesis
      by (subst str_nat.simps) (simp add: decimal_value_snoc digit_value_nth)
  qed
qed

lemma fs_now [simp]: "fs (snd (now env w)) = fs w"
  by (simp add: now_def)

lemma str_contains_single: "str_contains [c] s \<longleftrightarrow> c \<in> set s"
  by (induction s) (auto split: list.splits)

lemma split_str_nonempty: "split_str sep s \<noteq> []"
  by (induction s) (auto split: list.splits)

lemma split_str_unfold:
  "split_str sep s =
     takeWhile (\<lambda>c. c \<noteq> sep) s #
       (if sep \<in> set s then split_str sep (tl (dropWhile (\<lambda>c. c \<noteq> sep) s)) else [])"
proof (induction s)
  case Nil
  then show ?case by simp
next
  case (Cons c cs)
  then show ?case
    by (cases "split_str sep cs") (auto simp: split_str_nonempty)
qed

lemma split_str_second:
  assumes "sep \<in> set s"
  shows "list_item (split_str sep s) 1 =
           Inr (takeWhile (\<lambda>c. c \<noteq> sep) (tl (dropWhile (\<lambda>c. c \<noteq> sep) s)))"
proof -
  let ?r = "tl (dropWhile (\<lambda>c. c \<noteq> sep) s)"
  have "split_str sep s = takeWhile (\<lambda>c. c \<noteq> sep) s # split_str sep ?r"
    using assms by (subst split_str_unfold) simp
  moreover have "split_str sep ?r = takeWhile (\<lambda>c. c \<noteq> sep) ?r #
       (if sep \<in> set ?r then split_str sep (tl (dropWhile (\<lambda>c. c \<noteq> sep) ?r)) else [])"
    by (rule split_str_unfold)
  ultimately show ?thesis
    by (simp add: list_item_def)
qed

lemma get_keypoint_name_nonneg: "0 \<le> idx \<Longrightarrow> \<exists>name. get_keypoint_name idx = Inr name"
  by (simp add: get_keypoint_name_def list_item_def)

lemma keypoints_loop_ids:
  "0 \<le> idx \<Longrightarrow>
     \<exists>kps. keypoints_loop idx ls acc = Inr (acc @ kps) \<and> length kps = length ls
          \<and> map keypoint_id kps = map (\<lambda>i. Some (JInt (idx + int i))) [0..<length ls]"
proof (induction ls arbitrary: idx acc)
  case Nil
  then show ?case by simp
next
  case (Cons l ls)
  from Cons.prems obtain name where n: "get_keypoint_name idx = Inr name"
    using get_keypoint_name_nonneg by blast
  from Cons.prems have "0 \<le> idx + 1" by simp
  from Cons.IH [OF this, of "acc @ [keypoint idx name l]"]
  obtain kps where k: "keypoints_loop (idx + 1) ls (acc @ [keypoint idx name l]) = Inr ((acc @ [keypoint idx name l]) @ kps)"
     "length kps = length ls"
     "map keypoint_id kps = map (\<lambda>i. Some (JInt (idx + 1 + int i))) [0..<length ls]"
    by blast
  have u: "map (\<lambda>i. Some (JInt (idx + int i))) [0..<length (l # ls)]
      = Some (JInt idx) # map (\<lambda>i. Some (JInt (idx + 1 + int i))) [0..<length ls]"
    by (simp add: upt_conv_Cons map_Suc_upt [symmetric] add.assoc add.commute del: upt_Suc)
  have v: "keypoint_id (keypoint idx name l) = Some (JInt idx)"
    by (simp add: keypoint_id_def keypoint_def dict_get_def)
  have "keypoints_loop idx (l # ls) acc = Inr (acc @ keypoint idx name l # kps)"
    using n k(1) by simp
  moreover have "length (keypoint idx name l # kps) = length (l # ls)"
    using k(2) by simp
  moreover have "map keypoint_id (keypoint idx name l # kps)
      = map (\<lambda>i. Some (JInt (idx + int i))) [0..<length (l # ls)]"
    unfolding u using k(3) v by simp
  ultimately show ?case by blast
qed

lemma success_of_try:
  "extract_keypoints_try env w p = (Inr d, w') \<Longrightarrow> dict_get d ''success'' = Some (JBool True) \<and> (\<exists>t. dict_get d ''timestamp'' = Some (JStr t))"
  by (auto simp: extract_keypoints_try_def keypoints_data_def now_def dict_get_def
      split: option.splits sum.splits)

lemma success_of_base64_try:
  "extract_keypoints_from_base64_try env w v = (Inr d, w') \<Longrightarrow> dict_get d ''success'' = Some (JBool True) \<and> (\<exists>t. dict_get d ''timestamp'' = Some (JStr t))"
  by (auto simp: extract_keypoints_from_base64_try_def keypoints_data_def now_def dict_get_def
      split: option.splits sum.splits)

lemma failure_dict_fields:
  "dict_get (fst (failure_dict env w e)) ''success'' = Some (JBool False)"
  "dict_get (fst (failure_dict env w e)) ''error'' = Some (JStr (str_error e))"
  "dict_get (fst (failure_dict env w e)) ''timestamp'' = Some (JStr (isoformat env (clock env (reads w))))"
  by (simp_all add: failure_dict_def now_def dict_get_def)

lemma extract_keypoints_cases:
  "(\<exists>d w'. extract_keypoints_try env w p = (Inr d, w') \<and> extract_keypoints env w p = (d, w'))
   \<or> (\<exists>e w'. extract_keypoints_try env w p = (Inl e, w') \<and> extract_keypoints env w p = failure_dict env w' e)"
  by (cases "extract_keypoints_try env w p") (auto simp: extract_keypoints_def split: sum.splits)

lemma extract_keypoints_from_base64_cases:
  "(\<exists>d w'. extract_keypoints_from_base64_try env w v = (Inr d, w') \<and> extract_keypoints_from_base64 env w v = (d, w'))
   \<or> (\<exists>e w'. extract_keypoints_from_base64_try env w v = (Inl e, w')
         \<and> extract_keypoints_from_base64 env w v = failure_dict env w' e)"
  by (cases "extract_keypoints_from_base64_try env w v")
     (auto simp: extract_keypoints_from_base64_def split: sum.splits)

subsection \<open>What the extraction leaves unchanged\<close>

lemma fs_failure_dict: "fs (snd (failure_dict env w e)) = fs w"
  by (simp add: failure_dict_def now_def)

lemma fs_keypoints_data: "fs (snd (keypoints_data env w img pl)) = fs w"
  by (simp add: keypoints_data_def now_def split: sum.splits)

lemma fs_extract_keypoints_try: "fs (snd (extract_keypoints_try env w p)) = fs w"
  by (simp add: extract_keypoints_try_def fs_keypoints_data split: option.splits sum.splits)

lemma fs_extract_keypoints: "fs (snd (extract_keypoints env w p)) = fs w"
proof (cases "extract_keypoints_try env w p")
  case (Pair r w1)
  have "fs w1 = fs w"
    using fs_extract_keypoints_try [of env w p] Pair by simp
  with Pair show ?thesis
    by (cases r) (simp_all add: extract_keypoints_def fs_failure_dict)
qed

lemma dict_get_dict_set: "dict_get (dict_set k v d) k = Some v"
  by (induction d) (auto simp: dict_get_def)

lemma stdout_failure_dict: "stdout (snd (failure_dict env w e)) = stdout w"
  by (simp add: failure_dict_def now_def)

lemma stdout_extract_keypoints_try: "stdout (snd (extract_keypoints_try env w p)) = stdout w"
  by (simp add: extract_keypoints_try_def keypoints_data_def now_def
      split: option.splits sum.splits)

lemma stdout_extract_keypoints: "stdout (snd (extract_keypoints env w p)) = stdout w"
proof (cases "extract_keypoints_try env w p")
  case (Pair r w1)
  have "stdout w1 = stdout w"
    using stdout_extract_keypoints_try [of env w p] Pair by simp
  with Pair show ?thesis
    by (cases r) (simp_all add: extract_keypoints_def stdout_failure_dict)
qed

subsection \<open>The batch loop\<close>

lemma batch_loop_skip:
  "filename file = [] \<Longrightarrow> batch_loop env w (file # rest) acc = batch_loop env w rest acc"
  by simp

lemma batch_loop_save_fails:
  assumes "filename file \<noteq> []"
    and "\<not> can_create env (temp_name env ''temp_'' (clock env (reads w)) (filename file))"
  shows "\<exists>e w'. batch_loop env w (file # rest) acc = (Inl e, w')"
  using assms by (simp add: now_def file_save_def)

lemma batch_loop_step:
  assumes "filename file \<noteq> []"
    and "can_create env (temp_name env ''temp_'' (clock env (reads w)) (filename file))"
  shows "\<exists>w2 w4 t. fs w2 (temp_name env ''temp_'' t (filename file)) = Some (content file)
          \<and> batch_loop env w (file # rest) acc
              = batch_loop env w4 rest
                  (acc @ [dict_set ''filename'' (JStr (filename file))
                            (fst (extract_keypoints env w2
                                   (temp_name env ''temp_'' t (filename file))))])"
proof -
  let ?t = "clock env (reads w)"
  let ?tp = "temp_name env ''temp_'' ?t (filename file)"
  let ?w1 = "w\<lparr>reads := Suc (reads w)\<rparr>"
  let ?w2 = "?w1\<lparr>fs := (fs ?w1)(?tp \<mapsto> content file)\<rparr>"
  obtain result w3 where e: "extract_keypoints env ?w2 ?tp = (result, w3)"
    by (cases "extract_keypoints env ?w2 ?tp")
  have "fs w3 = fs ?w2"
    using fs_extract_keypoints [of env ?w2 ?tp] e by simp
  then have r: "os_remove w3 ?tp = (Inr (), w3\<lparr>fs := (fs w3)(?tp := None)\<rparr>)"
    by (simp add: os_remove_def)
  have "batch_loop env w (file # rest) acc
      = batch_loop env (w3\<lparr>fs := (fs w3)(?tp := None)\<rparr>) rest
          (acc @ [dict_set ''filename'' (JStr (filename file)) result])"
    using assms e r by (simp add: now_def file_save_def)
  moreover have "fs ?w2 ?tp = Some (content file)" by simp
  moreover have "result = fst (extract_keypoints env ?w2 ?tp)" using e by simp
  ultimately show ?thesis by blast
qed

lemma batch_loop_results:
  "batch_loop env w fl acc = (Inr res, w') \<Longrightarrow>
     \<exists>rs. res = acc @ rs
        \<and> list_all2
             (\<lambda>f r. \<exists>w0 t. fs w0 (temp_name env ''temp_'' t (filename f)) = Some (content f)
                  \<and> r = dict_set ''filename'' (JStr (filename f))
                          (fst (extract_keypoints env w0 (temp_name env ''temp_'' t (filename f)))))
             (filter (\<lambda>f. filename f \<noteq> []) fl) rs"
proof (induction fl arbitrary: w acc)
  case Nil
  then show ?case by simp
next
  case (Cons upl rest)
  show ?case
  proof (cases "filename upl = []")
    case True
    with Cons.prems have "batch_loop env w rest acc = (Inr res, w')" by simp
    from Cons.IH [OF this] True show ?thesis by simp
  next
    case False
    have c: "can_create env (temp_name env ''temp_'' (clock env (reads w)) (filename upl))"
      using batch_loop_save_fails [OF False, of env w rest acc] Cons.prems by auto
    from batch_loop_step [OF False c, of rest acc] obtain w2 w4 t where
      s: "fs w2 (temp_name env ''temp_'' t (filename upl)) = Some (content upl)"
      and b: "batch_loop env w (upl # rest) acc
              = batch_loop env w4 rest
                  (acc @ [dict_set ''filename'' (JStr (filename upl))
                            (fst (extract_keypoints env w2
                                   (temp_name env ''temp_'' t (filename upl))))])"
      by blast
    let ?r = "dict_set ''filename'' (JStr (filename upl))
                (fst (extract_keypoints env w2 (temp_name env ''temp_'' t (filename upl))))"
    from b Cons.prems have "batch_loop env w4 rest (acc @ [?r]) = (Inr res, w')" by simp
    from Cons.IH [OF this] obtain rs where
      rs: "res = (acc @ [?r]) @ rs"
      "list_all2
             (\<lambda>f r. \<exists>w0 t. fs w0 (temp_name env ''temp_'' t (filename f)) = Some (content f)
                  \<and> r = dict_set ''filename'' (JStr (filename f))
                          (fst (extract_keypoints env w0 (temp_name env ''temp_'' t (filename f)))))
             (filter (\<lambda>f. filename f \<noteq> []) rest) rs"
      by blast
    have "res = acc @ (?r # rs)" using rs(1) by simp
    moreover have "list_all2
             (\<lambda>f r. \<exists>w0 t. fs w0 (temp_name env ''temp_'' t (filename f)) = Some (content f)
                  \<and> r = dict_set ''filename'' (JStr (filename f))
                          (fst (extract_keypoints env w0 (temp_name env ''temp_'' t (filename f)))))
             (filter (\<lambda>f. filename f \<noteq> []) (upl # rest)) (?r # rs)"
      using False s rs(2) by auto
    ultimately show ?thesis by blast
  qed
qed

lemma batch_loop_succeeds:
  "\<forall>f \<in> set fl. filename f \<noteq> [] \<longrightarrow> (\<forall>t. can_create env (temp_name env ''temp_'' t (filename f)))
     \<Longrightarrow> \<exists>res w'. batch_loop env w fl acc = (Inr res, w')"
proof (induction fl arbitrary: w acc)
  case Nil
  then show ?case by simp
next
  case (Cons upl rest)
  then have ih: "\<And>w acc. \<exists>res w'. batch_loop env w rest acc = (Inr res, w')" by simp
  show ?case
  proof (cases "filename upl = []")
    case True
    with ih show ?thesis by simp
  next
    case False
    with Cons.prems
    have "can_create env (temp_name env ''temp_'' (clock env (reads w)) (filename upl))"
      by simp
    from batch_loop_step [OF False this, of rest acc] ih show ?thesis by metis
  qed
qed

lemma error_500_body:
  "status (fst (error_500 env w e)) = 500"
  "dict_get (body (fst (error_500 env w e))) ''results'' = None"
  "dict_get (body (fst (error_500 env w e))) ''total_processed'' = None"
  by (simp_all add: error_500_def failure_dict_def now_def json_response_def dict_get_def)

lemma batch_extract_api_cases:
  "(map_of (files req) ''images'' = None
      \<and> fst (batch_extract_api env w req)
          = json_response [(''error'', JStr ''No images provided'')] 400)
   \<or> (\<exists>e w1. map_of (files req) ''images'' \<noteq> None
         \<and> batch_loop env w (getlist (files req) ''images'') [] = (Inl e, w1)
         \<and> batch_extract_api env w req = error_500 env w1 e)
   \<or> (\<exists>rs w1. map_of (files req) ''images'' \<noteq> None
         \<and> batch_loop env w (getlist (files req) ''images'') [] = (Inr rs, w1)
         \<and> fst (batch_extract_api env w req)
             = json_response
                 [(''success'', JBool True),
                  (''total_processed'', JInt (int (length rs))),
                  (''results'', JList (map JDict rs)),
                  (''timestamp'', JStr (isoformat env (clock env (reads w1))))] 200)"
proof (cases "map_of (files req) ''images'' = None")
  case True
  then show ?thesis
    by (simp add: batch_extract_api_def batch_extract_api_try_def)
next
  case False
  obtain r w1 where b: "batch_loop env w (getlist (files req) ''images'') [] = (r, w1)"
    by (cases "batch_loop env w (getlist (files req) ''images'') []")
  show ?thesis
  proof (cases r)
    case (Inl e)
    with False b show ?thesis
      by (simp add: batch_extract_api_def batch_extract_api_try_def)
  next
    case (Inr rs)
    with False b show ?thesis
      by (simp add: batch_extract_api_def batch_extract_api_try_def now_def)
  qed
qed

lemma length_filter_nonempty:
  "length (filter (\<lambda>f. filename f \<noteq> []) fl)
     = length fl - length (filter (\<lambda>f. filename f = []) fl)"
  using sum_length_filter_compl [of "\<lambda>f. filename f = []" fl] by simp

lemma entry_filenames:
  assumes "list_all2
             (\<lambda>f r. \<exists>w0 t. fs w0 (temp_name env ''temp_'' t (filename f)) = Some (content f)
                  \<and> r = dict_set ''filename'' (JStr (filename f))
                          (fst (extract_keypoints env w0 (temp_name env ''temp_'' t (filename f)))))
             fl rs"
  shows "map (\<lambda>r. dict_get r ''filename'') rs = map (\<lambda>f. Some (JStr (filename f))) fl"
  using assms by (induction fl rs rule: list_all2_induct) (auto simp: dict_get_dict_set)

lemma sample_batch_files:
  "getlist (files sample_batch) ''images''
     = [\<lparr>filename = ''a.jpg'', content = [0xFF, 0xD8]\<rparr>, \<lparr>filename = [], content = []\<rparr>,
        \<lparr>filename = ''notes.txt'', content = [0x41, 0x42, 0x43]\<rparr>]"
  by (simp add: sample_batch_def getlist_def)

lemma sample_batch_creatable:
  "map_of (files sample_batch) ''images'' \<noteq> None
     \<and> (\<forall>f \<in> set (getlist (files sample_batch) ''images''). filename f \<noteq> [] \<longrightarrow>
           (\<forall>t. can_create sample_env (temp_name sample_env ''temp_'' t (filename f))))"
proof -
  have d: "\<And>n. CHR ''/'' \<notin> set (str_nat n)"
  proof -
    fix n show "CHR ''/'' \<notin> set (str_nat n)"
    proof (induction n rule: str_nat.induct)
      case (1 n)
      have m: "\<And>k. k < 10 \<Longrightarrow> digit_chars ! k \<noteq> CHR ''/''"
      proof -
        fix k :: nat assume "k < 10"
        then have "k \<in> {0, 1, 2, 3, 4, 5, 6, 7, 8, 9}" by auto
        then show "digit_chars ! k \<noteq> CHR ''/''" by (auto simp: digit_chars_def)
      qed
      show ?case
      proof (cases "n < 10")
        case True
        then show ?thesis using m [of n] by (subst str_nat.simps) auto
      next
        case False
        then show ?thesis using "1" m [of "n mod 10"] by (subst str_nat.simps) auto
      qed
    qed
  qed
  show ?thesis
    by (simp add: sample_batch_files) (simp add: sample_batch_def sample_env_def temp_name_def d)
qed

lemma batch_results_origin:
  assumes "dict_get (body (fst (batch_extract_api env w req))) ''results'' = Some (JList js)"
  shows "\<exists>rs w1. batch_loop env w (getlist (files req) ''images'') [] = (Inr rs, w1)
           \<and> js = map JDict rs"
proof -
  have m: "dict_get [(''error'', JStr ''No images provided'')] ''results'' = None"
    by (simp add: dict_get_def)
  have k: "\<And>a b c d. dict_get [(''success'', a), (''total_processed'', b), (''results'', c),
      (''timestamp'', d)] ''results'' = Some c"
    by (simp add: dict_get_def)
  from batch_extract_api_cases [of req env w] assms show ?thesis
    by (auto simp: json_response_def error_500_body m k)
qed

subsection \<open>Steps of \<open>main\<close>\<close>

lemma visualize_pose_success:
  assumes "visualize_pose env w p = (Inr viz, w')"
  shows "stdout w' = stdout w \<and> (can_create env viz \<longrightarrow> fs w' viz \<noteq> None)
       \<and> viz = ''pose_visualization_'' @ path_stem env p @ ''_''
                 @ strftime env (clock env (reads w)) @ ''.jpg''"
  using assms
  by (auto simp: visualize_pose_def visualize_pose_try_def imwrite_def now_def Let_def
      split: option.splits sum.splits prod.splits if_splits)

lemma visualize_pose_failure:
  assumes "visualize_pose env w p = (Inl e, w')"
  shows "\<exists>m. e = Exception (''Visualization failed: '' @ m)"
  using assms
  by (auto simp: visualize_pose_def visualize_pose_try_def now_def Let_def
      split: option.splits sum.splits prod.splits)

lemma main_no_image:
  "mode a = Cli \<Longrightarrow> truthy (image_arg a) = None \<Longrightarrow>
     main env w a = (None, print w ''Error: --image is required for CLI mode'')"
  by (simp add: main_def)

lemma main_missing_file:
  "mode a = Cli \<Longrightarrow> truthy (image_arg a) = Some p \<Longrightarrow> \<not> os_path_exists w p \<Longrightarrow>
     main env w a = (None, print w (''Error: Image file not found: '' @ p))"
  by (simp add: main_def)

lemma main_existing:
  assumes "mode a = Cli" "truthy (image_arg a) = Some p" "os_path_exists w p"
  shows "main env w a =
     (case main_output env (snd (extract_keypoints env (print w (''Processing image: '' @ p)) p)) a
             (fst (extract_keypoints env (print w (''Processing image: '' @ p)) p)) of
        (Some e, w3) \<Rightarrow> (Some e, w3)
      | (None, w3) \<Rightarrow> main_visualize env w3 a p)"
  using assms by (simp add: main_def split: prod.splits)

lemma main_output_unchanged: "main_output env w (a\<lparr>visualize_arg := v\<rparr>) r = main_output env w a r"
  by (simp add: main_output_def)

lemma main_print_stdout:
  assumes "mode a = Cli" "truthy (image_arg a) = Some p" "os_path_exists w p"
    "\<not> visualize_arg a" "truthy (output_arg a) = None"
  shows "fst (main env w a) = None
       \<and> stdout (snd (main env w a))
           = stdout w @ [''Processing image: '' @ p,
               json_dumps env
                 (JDict (fst (extract_keypoints env (print w (''Processing image: '' @ p)) p)))]
       \<and> fs (snd (main env w a)) = fs w"
proof -
  let ?w1 = "print w (''Processing image: '' @ p)"
  have "stdout (snd (extract_keypoints env ?w1 p)) = stdout w @ [''Processing image: '' @ p]"
    "fs (snd (extract_keypoints env ?w1 p)) = fs w"
    by (simp_all add: stdout_extract_keypoints fs_extract_keypoints print_def)
  then show ?thesis
    using assms by (simp add: main_existing main_output_def main_visualize_def print_def)
qed

lemma main_write_file:
  assumes "mode a = Cli" "truthy (image_arg a) = Some p" "os_path_exists w p"
    "\<not> visualize_arg a" "truthy (output_arg a) = Some out" "can_create env out"
  shows "fst (main env w a) = None
       \<and> stdout (snd (main env w a))
           = stdout w @ [''Processing image: '' @ p, ''Results saved to: '' @ out]
       \<and> fs (snd (main env w a))
           = (fs w)(out \<mapsto> encode_text (json_dumps env
                 (JDict (fst (extract_keypoints env (print w (''Processing image: '' @ p)) p)))))"
proof -
  let ?w1 = "print w (''Processing image: '' @ p)"
  have "stdout (snd (extract_keypoints env ?w1 p)) = stdout w @ [''Processing image: '' @ p]"
    "fs (snd (extract_keypoints env ?w1 p)) = fs w"
    by (simp_all add: stdout_extract_keypoints fs_extract_keypoints print_def)
  then show ?thesis
    using assms
    by (simp add: main_existing main_output_def main_visualize_def write_text_def print_def)
qed

lemma main_write_fails:
  assumes "mode a = Cli" "truthy (image_arg a) = Some p" "os_path_exists w p"
    "truthy (output_arg a) = Some out" "\<not> can_create env out"
  shows "(\<exists>m. fst (main env w a) = Some (OSError m))
       \<and> stdout (snd (main env w a)) = stdout w @ [''Processing image: '' @ p]
       \<and> fs (snd (main env w a)) = fs w"
proof -
  let ?w1 = "print w (''Processing image: '' @ p)"
  have "stdout (snd (extract_keypoints env ?w1 p)) = stdout w @ [''Processing image: '' @ p]"
    "fs (snd (extract_keypoints env ?w1 p)) = fs w"
    by (simp_all add: stdout_extract_keypoints fs_extract_keypoints print_def)
  then show ?thesis
    using assms by (simp add: main_existing main_output_def write_text_def)
qed

lemma main_then_visualize:
  assumes "mode a = Cli" "truthy (image_arg a) = Some p" "os_path_exists w p" "visualize_arg a"
    and "main env w (a\<lparr>visualize_arg := False\<rparr>) = (None, w3)"
  shows "main env w a =
           (case visualize_pose env w3 p of
              (Inl e, w4) \<Rightarrow> (Some e, w4)
            | (Inr viz, w4) \<Rightarrow> (None, print w4 (''Visualization saved to: '' @ viz)))"
proof -
  let ?w1 = "print w (''Processing image: '' @ p)"
  let ?r = "fst (extract_keypoints env ?w1 p)"
  let ?w2 = "snd (extract_keypoints env ?w1 p)"
  obtain x w' where o: "main_output env ?w2 a ?r = (x, w')"
    by (cases "main_output env ?w2 a ?r")
  have "main env w (a\<lparr>visualize_arg := False\<rparr>)
      = (case main_output env ?w2 a ?r of
           (Some e, w3) \<Rightarrow> (Some e, w3)
         | (None, w3) \<Rightarrow> (None, w3))"
    using assms(1-3)
    by (subst main_existing [of _ p])
       (auto simp: main_output_unchanged main_visualize_def split: prod.splits option.splits)
  with assms(5) o have "x = None" "w' = w3"
    by (auto split: option.splits)
  with o assms(1-4) show ?thesis
    by (simp add: main_existing main_visualize_def)
qed

lemma sample_exists:
  "os_path_exists sample_world ''a.jpg''" "os_path_exists sample_world ''notes.txt''"
  "\<not> os_path_exists sample_world ''gone.jpg''"
  by (simp_all add: os_path_exists_def sample_world_def)

lemma visualize_pose_sample:
  assumes "fs w ''a.jpg'' = Some [0xFF, 0xD8]"
  shows "\<exists>viz w'. visualize_pose sample_env w ''a.jpg'' = (Inr viz, w')"
  using assms
  by (simp add: visualize_pose_def visualize_pose_try_def imread_def sample_env_def now_def Let_def)

lemma visualize_pose_sample_fails:
  assumes "fs w ''notes.txt'' = Some [0x41, 0x42, 0x43]"
  shows "\<exists>e w'. visualize_pose sample_env w ''notes.txt'' = (Inl e, w')"
  using assms
  by (simp add: visualize_pose_def visualize_pose_try_def imread_def sample_env_def)

section \<open>The claims\<close>

subsection \<open>The keypoint name table\<close>

text \<open>
  C1. For every index 0..32 \<open>_get_keypoint_name\<close> returns the entry of the fixed table of
  33 names at that index, in the order NOSE, LEFT_EYE_INNER, ..., RIGHT_FOOT_INDEX; for
  every index from 33 on it returns UNKNOWN_ followed by the decimal digits of the
  index. The result is a function of the index alone.
\<close>

theorem get_keypoint_name_table:
  "map get_keypoint_name [0, 1, 2, 3, 4, 5, 6, 7, 8, 9, 10, 11, 12, 13, 14, 15, 16,
       17, 18, 19, 20, 21, 22, 23, 24, 25, 26, 27, 28, 29, 30, 31, 32] =
     map Inr
      [''NOSE'', ''LEFT_EYE_INNER'', ''LEFT_EYE'', ''LEFT_EYE_OUTER'',
       ''RIGHT_EYE_INNER'', ''RIGHT_EYE'', ''RIGHT_EYE_OUTER'',
       ''LEFT_EAR'', ''RIGHT_EAR'', ''MOUTH_LEFT'', ''MOUTH_RIGHT'',
       ''LEFT_SHOULDER'', ''RIGHT_SHOULDER'', ''LEFT_ELBOW'', ''RIGHT_ELBOW'',
       ''LEFT_WRIST'', ''RIGHT_WRIST'', ''LEFT_PINKY'', ''RIGHT_PINKY'',
       ''LEFT_INDEX'', ''RIGHT_INDEX'', ''LEFT_THUMB'', ''RIGHT_THUMB'',
       ''LEFT_HIP'', ''RIGHT_HIP'', ''LEFT_KNEE'', ''RIGHT_KNEE'',
       ''LEFT_ANKLE'', ''RIGHT_ANKLE'', ''LEFT_HEEL'', ''RIGHT_HEEL'',
       ''LEFT_FOOT_INDEX'', ''RIGHT_FOOT_INDEX'']
   \<and> (\<forall>i. 0 \<le> i \<and> i < 33 \<longrightarrow> get_keypoint_name i = Inr (keypoint_names ! nat i))
   \<and> (\<forall>i \<ge> 33. \<exists>s. get_keypoint_name i = Inr (''UNKNOWN_'' @ s)
          \<and> s = str_int i \<and> int (decimal_value s) = i)"
proof (intro conjI allI impI)
  show "map get_keypoint_name [0, 1, 2, 3, 4, 5, 6, 7, 8, 9, 10, 11, 12, 13, 14, 15, 16,
       17, 18, 19, 20, 21, 22, 23, 24, 25, 26, 27, 28, 29, 30, 31, 32] =
     map Inr
      [''NOSE'', ''LEFT_EYE_INNER'', ''LEFT_EYE'', ''LEFT_EYE_OUTER'',
       ''RIGHT_EYE_INNER'', ''RIGHT_EYE'', ''RIGHT_EYE_OUTER'',
       ''LEFT_EAR'', ''RIGHT_EAR'', ''MOUTH_LEFT'', ''MOUTH_RIGHT'',
       ''LEFT_SHOULDER'', ''RIGHT_SHOULDER'', ''LEFT_ELBOW'', ''RIGHT_ELBOW'',
       ''LEFT_WRIST'', ''RIGHT_WRIST'', ''LEFT_PINKY'', ''RIGHT_PINKY'',
       ''LEFT_INDEX'', ''RIGHT_INDEX'', ''LEFT_THUMB'', ''RIGHT_THUMB'',
       ''LEFT_HIP'', ''RIGHT_HIP'', ''LEFT_KNEE'', ''RIGHT_KNEE'',
       ''LEFT_ANKLE'', ''RIGHT_ANKLE'', ''LEFT_HEEL'', ''RIGHT_HEEL'',
       ''LEFT_FOOT_INDEX'', ''RIGHT_FOOT_INDEX'']"
    by (simp add: get_keypoint_name_def list_item_def keypoint_names_def)
next
  fix i :: int
  assume "0 \<le> i \<and> i < 33"
  then show "get_keypoint_name i = Inr (keypoint_names ! nat i)"
    by (simp add: get_keypoint_name_def list_item_def length_keypoint_names)
next
  fix i :: int
  assume "33 \<le> i"
  then show "\<exists>s. get_keypoint_name i = Inr (''UNKNOWN_'' @ s)
          \<and> s = str_int i \<and> int (decimal_value s) = i"
    by (simp add: get_keypoint_name_def length_keypoint_names str_int_def decimal_value_str_nat)
qed

theorem get_keypoint_name_table_witness:
  "get_keypoint_name 0 = Inr ''NOSE'' \<and> get_keypoint_name 32 = Inr ''RIGHT_FOOT_INDEX''
   \<and> get_keypoint_name 33 = Inr ''UNKNOWN_33'' \<and> get_keypoint_name 140 = Inr ''UNKNOWN_140''"
proof -
  have a: "str_int 33 = ''33''" "str_int 140 = ''140''"
    by (simp_all add: str_int_def str_nat.simps digit_chars_def)
  have b: "keypoint_names ! nat 0 = ''NOSE''" "keypoint_names ! nat 32 = ''RIGHT_FOOT_INDEX''"
    by (simp_all add: keypoint_names_def)
  from get_keypoint_name_table
  have t: "\<forall>i. 0 \<le> i \<and> i < 33 \<longrightarrow> get_keypoint_name i = Inr (keypoint_names ! nat i)"
    and u: "\<forall>i \<ge> 33. \<exists>s. get_keypoint_name i = Inr (''UNKNOWN_'' @ s)
          \<and> s = str_int i \<and> int (decimal_value s) = i"
    by blast+
  from t [rule_format, of 0] t [rule_format, of 32] u [rule_format, of 33] u [rule_format, of 140]
  show ?thesis
    using a b by auto
qed

subsection \<open>Counting in the batch endpoint\<close>

text \<open>
  C2, as amended. When the request has at least one file under \<open>images\<close> and the
  temporary file of every entry with a non-empty filename can be created, the response
  is 200 with \<open>total_processed = N - M\<close>, a \<open>results\<close> list of that length, and one
  record per entry with a non-empty filename, annotated with that filename, whether or
  not its extraction succeeded. A request without the field is answered 400, and every
  response other than 200 is a 400 or 500 error body with neither \<open>total_processed\<close>
  nor \<open>results\<close>.
\<close>

theorem batch_extract_api_counts:
  "(map_of (files req) ''images'' \<noteq> None
     \<and> (\<forall>f \<in> set (getlist (files req) ''images''). filename f \<noteq> [] \<longrightarrow>
           (\<forall>t. can_create env (temp_name env ''temp_'' t (filename f)))) \<longrightarrow>
     (\<exists>rs. status (fst (batch_extract_api env w req)) = 200
        \<and> dict_get (body (fst (batch_extract_api env w req))) ''total_processed''
            = Some (JInt (int (length (getlist (files req) ''images'')
                 - length (filter (\<lambda>f. filename f = []) (getlist (files req) ''images'')))))
        \<and> dict_get (body (fst (batch_extract_api env w req))) ''results''
            = Some (JList (map JDict rs))
        \<and> length rs = length (getlist (files req) ''images'')
                 - length (filter (\<lambda>f. filename f = []) (getlist (files req) ''images''))
        \<and> map (\<lambda>r. dict_get r ''filename'') rs
            = map (\<lambda>f. Some (JStr (filename f)))
                (filter (\<lambda>f. filename f \<noteq> []) (getlist (files req) ''images''))))
   \<and> (map_of (files req) ''images'' = None \<longrightarrow> status (fst (batch_extract_api env w req)) = 400)
   \<and> (status (fst (batch_extract_api env w req)) \<noteq> 200 \<longrightarrow>
        (status (fst (batch_extract_api env w req)) = 400
           \<or> status (fst (batch_extract_api env w req)) = 500)
        \<and> dict_get (body (fst (batch_extract_api env w req))) ''total_processed'' = None
        \<and> dict_get (body (fst (batch_extract_api env w req))) ''results'' = None)"
proof (intro conjI impI)
  let ?fl = "getlist (files req) ''images''"
  assume a: "map_of (files req) ''images'' \<noteq> None
     \<and> (\<forall>f \<in> set ?fl. filename f \<noteq> [] \<longrightarrow>
           (\<forall>t. can_create env (temp_name env ''temp_'' t (filename f))))"
  then obtain rs w1 where b: "batch_loop env w ?fl [] = (Inr rs, w1)"
    using batch_loop_succeeds [of ?fl env w "[]"] by blast
  from batch_loop_results [OF b]
  have l: "list_all2
             (\<lambda>f r. \<exists>w0 t. fs w0 (temp_name env ''temp_'' t (filename f)) = Some (content f)
                  \<and> r = dict_set ''filename'' (JStr (filename f))
                          (fst (extract_keypoints env w0 (temp_name env ''temp_'' t (filename f)))))
             (filter (\<lambda>f. filename f \<noteq> []) ?fl) rs"
    by simp
  have n: "length rs = length ?fl - length (filter (\<lambda>f. filename f = []) ?fl)"
    using list_all2_lengthD [OF l] length_filter_nonempty [of ?fl] by simp
  have r: "fst (batch_extract_api env w req)
             = json_response
                 [(''success'', JBool True),
                  (''total_processed'', JInt (int (length rs))),
                  (''results'', JList (map JDict rs)),
                  (''timestamp'', JStr (isoformat env (clock env (reads w1))))] 200"
    using batch_extract_api_cases [of req env w] a b by auto
  show "\<exists>rs. status (fst (batch_extract_api env w req)) = 200
        \<and> dict_get (body (fst (batch_extract_api env w req))) ''total_processed''
            = Some (JInt (int (length ?fl - length (filter (\<lambda>f. filename f = []) ?fl))))
        \<and> dict_get (body (fst (batch_extract_api env w req))) ''results''
            = Some (JList (map JDict rs))
        \<and> length rs = length ?fl - length (filter (\<lambda>f. filename f = []) ?fl)
        \<and> map (\<lambda>r. dict_get r ''filename'') rs
            = map (\<lambda>f. Some (JStr (filename f))) (filter (\<lambda>f. filename f \<noteq> []) ?fl)"
    using r n entry_filenames [OF l]
    by (intro exI [of _ rs]) (simp add: json_response_def dict_get_def)
next
  assume "map_of (files req) ''images'' = None"
  then show "status (fst (batch_extract_api env w req)) = 400"
    using batch_extract_api_cases [of req env w] by (auto simp: json_response_def)
next
  assume n: "status (fst (batch_extract_api env w req)) \<noteq> 200"
  have m: "dict_get [(''error'', JStr ''No images provided'')] ''total_processed'' = None"
    "dict_get [(''error'', JStr ''No images provided'')] ''results'' = None"
    by (simp_all add: dict_get_def)
  from batch_extract_api_cases [of req env w] n
  show "status (fst (batch_extract_api env w req)) = 400
           \<or> status (fst (batch_extract_api env w req)) = 500"
    by (auto simp: json_response_def error_500_body)
  from batch_extract_api_cases [of req env w] n
  show "dict_get (body (fst (batch_extract_api env w req))) ''total_processed'' = None"
    by (auto simp: json_response_def error_500_body m)
  from batch_extract_api_cases [of req env w] n
  show "dict_get (body (fst (batch_extract_api env w req))) ''results'' = None"
    by (auto simp: json_response_def error_500_body m)
qed

theorem batch_extract_api_counts_witness:
  "\<exists>rs. status (fst (batch_extract_api sample_env sample_world sample_batch)) = 200
      \<and> dict_get (body (fst (batch_extract_api sample_env sample_world sample_batch)))
           ''total_processed'' = Some (JInt 2)
      \<and> dict_get (body (fst (batch_extract_api sample_env sample_world sample_batch))) ''results''
           = Some (JList (map JDict rs))
      \<and> length rs = 2
      \<and> map (\<lambda>r. dict_get r ''filename'') rs = [Some (JStr ''a.jpg''), Some (JStr ''notes.txt'')]"
proof -
  have n: "length (getlist (files sample_batch) ''images'')
             - length (filter (\<lambda>f. filename f = []) (getlist (files sample_batch) ''images'')) = 2"
    "map (\<lambda>f. Some (JStr (filename f)))
         (filter (\<lambda>f. filename f \<noteq> []) (getlist (files sample_batch) ''images''))
       = [Some (JStr ''a.jpg''), Some (JStr ''notes.txt'')]"
    by (simp_all add: sample_batch_files)
  from batch_extract_api_counts [of sample_batch sample_env sample_world, THEN conjunct1,
      rule_format, OF sample_batch_creatable]
  show ?thesis
    unfolding n by simp
qed

text \<open>
  C2 as stated fails: one entry whose temporary file cannot be created (its filename
  names a missing sub-directory) makes \<open>file.save\<close> raise, and the whole batch is
  answered 500 with no \<open>total_processed\<close>.
\<close>

theorem batch_total_processed_counterexample:
  "\<not> (\<forall>env w req.
         dict_get (body (fst (batch_extract_api env w req))) ''total_processed''
           = Some (JInt (int (length (getlist (files req) ''images'')
                - length (filter (\<lambda>f. filename f = []) (getlist (files req) ''images''))))))"
proof
  assume "\<forall>env w req.
         dict_get (body (fst (batch_extract_api env w req))) ''total_processed''
           = Some (JInt (int (length (getlist (files req) ''images'')
                - length (filter (\<lambda>f. filename f = []) (getlist (files req) ''images'')))))"
  then have "dict_get (body (fst (batch_extract_api sample_env sample_world nested_batch)))
      ''total_processed''
           = Some (JInt (int (length (getlist (files nested_batch) ''images'')
                - length (filter (\<lambda>f. filename f = []) (getlist (files nested_batch) ''images'')))))"
    by blast
  moreover have "dict_get (body (fst (batch_extract_api sample_env sample_world nested_batch)))
      ''total_processed'' = None"
    by (simp add: batch_extract_api_def batch_extract_api_try_def nested_batch_def getlist_def
        now_def file_save_def temp_name_def sample_env_def error_500_body)
  ultimately show False by simp
qed

subsection \<open>The payload of a base64 input\<close>

text \<open>
  C3, as amended. Without a comma the whole string is the payload handed to
  \<open>b64decode\<close>. With a comma the payload is \<open>split(',')[1]\<close>: what stands between the
  first comma and the second one, or the end of the string when there is only one comma.
  When the payload does not decode (\<open>b64decode\<close> or \<open>imdecode\<close> raises, or \<open>imdecode\<close>
  finds no image) the result is the failure record of that error, never a success.
\<close>

theorem base64_payload_segment:
  "(CHR '','' \<notin> set s \<longrightarrow> base64_payload (JStr s) = Inr s)
   \<and> (CHR '','' \<in> set s \<longrightarrow>
        base64_payload (JStr s)
          = Inr (takeWhile (\<lambda>c. c \<noteq> CHR '','') (tl (dropWhile (\<lambda>c. c \<noteq> CHR '','') s))))
   \<and> (\<forall>payload image_data e.
         base64_payload (JStr s) = Inr payload \<longrightarrow>
           (b64decode env payload = Inl e \<longrightarrow>
              extract_keypoints_from_base64 env w (JStr s) = failure_dict env w e)
         \<and> (b64decode env payload = Inr image_data \<and> imdecode env image_data = Inl e \<longrightarrow>
              extract_keypoints_from_base64 env w (JStr s) = failure_dict env w e)
         \<and> (b64decode env payload = Inr image_data \<and> imdecode env image_data = Inr None \<longrightarrow>
              extract_keypoints_from_base64 env w (JStr s)
                = failure_dict env w (ValueError ''Could not decode base64 image'')))"
proof (intro conjI allI impI)
  assume "CHR '','' \<notin> set s"
  then show "base64_payload (JStr s) = Inr s"
    by (simp add: base64_payload_def str_contains_single)
next
  assume "CHR '','' \<in> set s"
  then show "base64_payload (JStr s)
          = Inr (takeWhile (\<lambda>c. c \<noteq> CHR '','') (tl (dropWhile (\<lambda>c. c \<noteq> CHR '','') s)))"
    by (simp add: base64_payload_def str_contains_single split_str_second)
next
  fix payload image_data e
  assume "base64_payload (JStr s) = Inr payload" "b64decode env payload = Inl e"
  then show "extract_keypoints_from_base64 env w (JStr s) = failure_dict env w e"
    by (simp add: extract_keypoints_from_base64_def extract_keypoints_from_base64_try_def)
next
  fix payload image_data e
  assume "base64_payload (JStr s) = Inr payload"
    "b64decode env payload = Inr image_data \<and> imdecode env image_data = Inl e"
  then show "extract_keypoints_from_base64 env w (JStr s) = failure_dict env w e"
    by (simp add: extract_keypoints_from_base64_def extract_keypoints_from_base64_try_def)
next
  fix payload image_data e
  assume "base64_payload (JStr s) = Inr payload"
    "b64decode env payload = Inr image_data \<and> imdecode env image_data = Inr None"
  then show "extract_keypoints_from_base64 env w (JStr s)
                = failure_dict env w (ValueError ''Could not decode base64 image'')"
    by (simp add: extract_keypoints_from_base64_def extract_keypoints_from_base64_try_def)
qed

theorem base64_payload_segment_witness:
  "base64_payload (JStr ''QUJD'') = Inr ''QUJD''
   \<and> base64_payload (JStr ''data:image/png;base64,QUJD'') = Inr ''QUJD''
   \<and> base64_payload (JStr ''x,QUJD,REVG'') = Inr ''QUJD''
   \<and> extract_keypoints_from_base64 sample_env sample_world (JStr ''x,QUJD,REVG'')
       = failure_dict sample_env sample_world (ValueError ''Could not decode base64 image'')
   \<and> extract_keypoints_from_base64 sample_env sample_world (JStr ''data:,'')
       = failure_dict sample_env sample_world (LibError ''(-215:Assertion failed) !buf.empty()'')"
proof -
  have c: "b64decode sample_env ''QUJD'' = Inr [0x41, 0x42, 0x43]"
    "imdecode sample_env [0x41, 0x42, 0x43] = Inr None"
    "b64decode sample_env [] = Inr []"
    "imdecode sample_env [] = Inl (LibError ''(-215:Assertion failed) !buf.empty()'')"
    by (simp_all add: sample_env_def)
  have 1: "base64_payload (JStr ''QUJD'') = Inr ''QUJD''"
    using base64_payload_segment [of "''QUJD''"] by simp
  have 2: "base64_payload (JStr ''data:image/png;base64,QUJD'') = Inr ''QUJD''"
    using base64_payload_segment [of "''data:image/png;base64,QUJD''"] by simp
  have 3: "base64_payload (JStr ''x,QUJD,REVG'') = Inr ''QUJD''"
    using base64_payload_segment [of "''x,QUJD,REVG''"] by simp
  have 5: "base64_payload (JStr ''data:,'') = Inr []"
    using base64_payload_segment [of "''data:,''"] by simp
  have 4: "extract_keypoints_from_base64 sample_env sample_world (JStr ''x,QUJD,REVG'')
       = failure_dict sample_env sample_world (ValueError ''Could not decode base64 image'')"
    using base64_payload_segment [of "''x,QUJD,REVG''" sample_env sample_world] 3 c by blast
  have 6: "extract_keypoints_from_base64 sample_env sample_world (JStr ''data:,'')
       = failure_dict sample_env sample_world (LibError ''(-215:Assertion failed) !buf.empty()'')"
    using base64_payload_segment [of "''data:,''" sample_env sample_world] 5 c by blast
  from 1 2 3 4 6 show ?thesis by blast
qed

text \<open>
  C3 as stated fails: on \<open>x,QUJD,REVG\<close> the payload is \<open>QUJD\<close>, not everything after the
  first comma.
\<close>

theorem base64_payload_all_after_first_comma_counterexample:
  "\<not> (\<forall>s. CHR '','' \<in> set s \<longrightarrow>
          base64_payload (JStr s) = Inr (tl (dropWhile (\<lambda>c. c \<noteq> CHR '','') s)))"
proof
  assume "\<forall>s. CHR '','' \<in> set s \<longrightarrow>
          base64_payload (JStr s) = Inr (tl (dropWhile (\<lambda>c. c \<noteq> CHR '','') s))"
  then have "base64_payload (JStr ''x,QUJD,REVG'') = Inr ''QUJD,REVG''"
    by simp
  then show False
    by (simp add: base64_payload_def list_item_def)
qed

subsection \<open>Temporary files\<close>

text \<open>
  C4 fails in \<open>visualize_pose_api\<close>: for an upload that is not an image,
  \<open>visualize_pose\<close> raises after the temporary input file was saved, the handler
  answers 500, and the file is still on disk when the request completes.
\<close>

theorem visualize_pose_api_leaves_temp_file:
  "status (fst (visualize_pose_api sample_env sample_world
       \<lparr>files = [(''image'', \<lparr>filename = ''notes.txt'', content = [0x41, 0x42, 0x43]\<rparr>)],
        get_json = Inr JNull\<rparr>)) = 500
   \<and> fs (snd (visualize_pose_api sample_env sample_world
       \<lparr>files = [(''image'', \<lparr>filename = ''notes.txt'', content = [0x41, 0x42, 0x43]\<rparr>)],
        get_json = Inr JNull\<rparr>)) ''temp_input_0_notes.txt'' = Some [0x41, 0x42, 0x43]
   \<and> fs sample_world ''temp_input_0_notes.txt'' = None"
  by (simp add: visualize_pose_api_def visualize_pose_api_try_def visualize_pose_def
      visualize_pose_try_def imread_def file_save_def temp_name_def now_def error_500_def
      failure_dict_def json_response_def sample_env_def sample_world_def str_nat.simps
      digit_chars_def)

lemma visualize_pose_api_leak:
  assumes "map_of (files req) ''image'' = Some file" "filename file \<noteq> []"
    and "can_create env (temp_name env ''temp_input_'' (clock env (reads w)) (filename file))"
    and "codec env (content file) = None"
  shows "status (fst (visualize_pose_api env w req)) = 500
       \<and> fs (snd (visualize_pose_api env w req))
            (temp_name env ''temp_input_'' (clock env (reads w)) (filename file))
          = Some (content file)"
  using assms
  by (simp add: visualize_pose_api_def visualize_pose_api_try_def visualize_pose_def
      visualize_pose_try_def imread_def file_save_def now_def error_500_def
      failure_dict_def json_response_def)

lemma extract_pose_api_removes_temp_file:
  assumes "map_of (files req) ''image'' = Some file" "filename file \<noteq> []"
    and "can_create env (temp_name env ''temp_'' (clock env (reads w)) (filename file))"
  shows "status (fst (extract_pose_api env w req)) = 200
       \<and> fs (snd (extract_pose_api env w req))
           = (fs w)(temp_name env ''temp_'' (clock env (reads w)) (filename file) := None)"
proof -
  let ?tp = "temp_name env ''temp_'' (clock env (reads w)) (filename file)"
  let ?w1 = "w\<lparr>reads := Suc (reads w)\<rparr>"
  let ?w2 = "?w1\<lparr>fs := (fs ?w1)(?tp \<mapsto> content file)\<rparr>"
  obtain result w3 where e: "extract_keypoints env ?w2 ?tp = (result, w3)"
    by (cases "extract_keypoints env ?w2 ?tp")
  have f: "fs w3 = fs ?w2"
    using fs_extract_keypoints [of env ?w2 ?tp] e by simp
  then have r: "os_remove w3 ?tp = (Inr (), w3\<lparr>fs := (fs w3)(?tp := None)\<rparr>)"
    by (simp add: os_remove_def)
  have "extract_pose_api env w req
      = (json_response result 200, w3\<lparr>fs := (fs w3)(?tp := None)\<rparr>)"
    using assms e r
    by (simp add: extract_pose_api_def extract_pose_api_try_def now_def file_save_def)
  then show ?thesis
    using f by (simp add: json_response_def)
qed

subsection \<open>The keypoints of a successful result\<close>

lemma keypoints_loop_items:
  "0 \<le> idx \<Longrightarrow>
     \<exists>kps. keypoints_loop idx ls acc = Inr (acc @ kps) \<and> length kps = length ls
          \<and> (\<forall>i < length ls. \<exists>name. get_keypoint_name (idx + int i) = Inr name
                 \<and> kps ! i = keypoint (idx + int i) name (ls ! i))"
proof (induction ls arbitrary: idx acc)
  case Nil
  then show ?case by simp
next
  case (Cons l ls)
  from Cons.prems obtain name where n: "get_keypoint_name idx = Inr name"
    using get_keypoint_name_nonneg by blast
  from Cons.prems have "0 \<le> idx + 1" by simp
  from Cons.IH [OF this, of "acc @ [keypoint idx name l]"]
  obtain kps where k:
    "keypoints_loop (idx + 1) ls (acc @ [keypoint idx name l])
       = Inr ((acc @ [keypoint idx name l]) @ kps)"
    "length kps = length ls"
    "\<forall>i < length ls. \<exists>name. get_keypoint_name (idx + 1 + int i) = Inr name
        \<and> kps ! i = keypoint (idx + 1 + int i) name (ls ! i)"
    by blast
  have "keypoints_loop idx (l # ls) acc = Inr (acc @ keypoint idx name l # kps)"
    using n k(1) by simp
  moreover have "length (keypoint idx name l # kps) = length (l # ls)"
    using k(2) by simp
  moreover have "\<forall>i < length (l # ls). \<exists>nm. get_keypoint_name (idx + int i) = Inr nm
        \<and> (keypoint idx name l # kps) ! i = keypoint (idx + int i) nm ((l # ls) ! i)"
  proof (intro allI impI)
    fix i assume i: "i < length (l # ls)"
    show "\<exists>nm. get_keypoint_name (idx + int i) = Inr nm
        \<and> (keypoint idx name l # kps) ! i = keypoint (idx + int i) nm ((l # ls) ! i)"
    proof (cases i)
      case 0
      with n show ?thesis by simp
    next
      case (Suc j)
      with i have "j < length ls" by simp
      with k(3) obtain nm where f: "get_keypoint_name (idx + 1 + int j) = Inr nm"
        "kps ! j = keypoint (idx + 1 + int j) nm (ls ! j)"
        by blast
      have e: "idx + 1 + int j = idx + int i" using Suc by simp
      from f [unfolded e] have g: "get_keypoint_name (idx + int i) = Inr nm"
        "kps ! j = keypoint (idx + int i) nm (ls ! j)"
        by blast+
      have h: "(keypoint idx name l # kps) ! i = kps ! j" "(l # ls) ! i = ls ! j"
        using Suc by simp_all
      show ?thesis unfolding h using g by blast
    qed
  qed
  ultimately show ?case by blast
qed

lemma keypoints_data_invariant:
  assumes "keypoints_data env w img pl = (Inr d, w')"
  shows "\<exists>kps. dict_get d ''success'' = Some (JBool True)
       \<and> dict_get d ''keypoints'' = Some (JList kps)
       \<and> dict_get d ''pose_detected'' = Some (JBool (pl \<noteq> None))
       \<and> length kps = (case pl of None \<Rightarrow> 0 | Some ls \<Rightarrow> length ls)
       \<and> map keypoint_id kps = map (\<lambda>i. Some (JInt (int i))) [0..<length kps]
       \<and> (\<forall>ls. pl = Some ls \<longrightarrow>
            (\<forall>i < length ls. \<exists>name. get_keypoint_name (int i) = Inr name
                 \<and> kps ! i = keypoint (int i) name (ls ! i)))"
proof (cases pl)
  case None
  with assms show ?thesis
    by (auto simp: keypoints_data_def now_def dict_get_def)
next
  case (Some ls)
  obtain kps where k: "keypoints_loop 0 ls [] = Inr ([] @ kps)" "length kps = length ls"
    "map keypoint_id kps = map (\<lambda>i. Some (JInt (0 + int i))) [0..<length ls]"
    using keypoints_loop_ids [of 0 ls "[]"] by auto
  obtain kps' where k': "keypoints_loop 0 ls [] = Inr ([] @ kps')"
    "\<forall>i < length ls. \<exists>name. get_keypoint_name (0 + int i) = Inr name
        \<and> kps' ! i = keypoint (0 + int i) name (ls ! i)"
    using keypoints_loop_items [of 0 ls "[]"] by auto
  from k(1) k'(1) have "kps' = kps" by simp
  with k' have it: "\<forall>i < length ls. \<exists>name. get_keypoint_name (int i) = Inr name
        \<and> kps ! i = keypoint (int i) name (ls ! i)"
    by simp
  have d: "d = [(''success'', JBool True),
                (''timestamp'', JStr (isoformat env (clock env (reads w)))),
                (''image_info'',
                   JDict [(''width'', JInt (int (width img))),
                          (''height'', JInt (int (height img))),
                          (''channels'', JInt (int (channels img)))]),
                (''keypoints'', JList kps),
                (''pose_detected'', JBool True)]"
    using assms Some k(1) by (auto simp: keypoints_data_def now_def)
  have "dict_get d ''success'' = Some (JBool True)"
    "dict_get d ''keypoints'' = Some (JList kps)"
    "dict_get d ''pose_detected'' = Some (JBool (pl \<noteq> None))"
    unfolding d using Some by (simp_all add: dict_get_def)
  moreover have "length kps = (case pl of None \<Rightarrow> 0 | Some ls \<Rightarrow> length ls)"
    using Some k(2) by simp
  moreover have "map keypoint_id kps = map (\<lambda>i. Some (JInt (int i))) [0..<length kps]"
    using k(2) k(3) by simp
  moreover have "\<forall>ls'. pl = Some ls' \<longrightarrow>
            (\<forall>i < length ls'. \<exists>name. get_keypoint_name (int i) = Inr name
                 \<and> kps ! i = keypoint (int i) name (ls' ! i))"
    using Some it by simp
  ultimately show ?thesis by blast
qed

lemma successful_result_origin:
  assumes "dict_get (fst (extract_keypoints env w p)) ''success'' = Some (JBool True)"
  shows "\<exists>img pl w'. imread env w p = Some img \<and> process env (cvtColor env img) = Inr pl
            \<and> keypoints_data env w img pl = (Inr (fst (extract_keypoints env w p)), w')"
proof -
  from extract_keypoints_cases [of env w p] assms
  obtain d w' where t: "extract_keypoints_try env w p = (Inr d, w')"
    and r: "extract_keypoints env w p = (d, w')"
    by (auto simp: failure_dict_fields)
  from t r show ?thesis
    by (auto simp: extract_keypoints_try_def split: option.splits sum.splits)
qed

lemma successful_base64_result_origin:
  assumes "dict_get (fst (extract_keypoints_from_base64 env w v)) ''success'' = Some (JBool True)"
  shows "\<exists>payload image_data img pl w'.
            base64_payload v = Inr payload \<and> b64decode env payload = Inr image_data
            \<and> imdecode env image_data = Inr (Some img)
            \<and> process env (cvtColor env img) = Inr pl
            \<and> keypoints_data env w img pl = (Inr (fst (extract_keypoints_from_base64 env w v)), w')"
proof -
  from extract_keypoints_from_base64_cases [of env w v] assms
  obtain d w' where t: "extract_keypoints_from_base64_try env w v = (Inr d, w')"
    and r: "extract_keypoints_from_base64 env w v = (d, w')"
    by (auto simp: failure_dict_fields)
  from t r show ?thesis
    by (auto simp: extract_keypoints_from_base64_try_def split: option.splits sum.splits)
qed

lemma result_invariant:
  assumes p: "process env (cvtColor env img) = Inr pl"
    and k: "keypoints_data env w img pl = (Inr d, w')"
  shows "\<exists>kps b. dict_get d ''keypoints'' = Some (JList kps)
        \<and> dict_get d ''pose_detected'' = Some (JBool b)
        \<and> b = (pl \<noteq> None)
        \<and> map keypoint_id kps = map (\<lambda>i. Some (JInt (int i))) [0..<length kps]
        \<and> distinct (map keypoint_id kps)
        \<and> (\<not> b \<longrightarrow> kps = [])
        \<and> (\<forall>ls. pl = Some ls \<longrightarrow> length kps = length ls
              \<and> (\<forall>i < length ls. \<exists>name. get_keypoint_name (int i) = Inr name
                     \<and> kps ! i = keypoint (int i) name (ls ! i)))
        \<and> (pose_contract env \<longrightarrow> (kps = [] \<longleftrightarrow> \<not> b) \<and> (b \<longrightarrow> length kps = 33))"
proof -
  from keypoints_data_invariant [OF k] obtain kps where
    a: "dict_get d ''keypoints'' = Some (JList kps)"
       "dict_get d ''pose_detected'' = Some (JBool (pl \<noteq> None))"
       "length kps = (case pl of None \<Rightarrow> 0 | Some ls \<Rightarrow> length ls)"
       "map keypoint_id kps = map (\<lambda>i. Some (JInt (int i))) [0..<length kps]"
       "\<forall>ls. pl = Some ls \<longrightarrow>
            (\<forall>i < length ls. \<exists>name. get_keypoint_name (int i) = Inr name
                 \<and> kps ! i = keypoint (int i) name (ls ! i))"
    by blast
  have "inj_on (\<lambda>i. Some (JInt (int i))) (set [0..<length kps])"
    by (auto simp: inj_on_def)
  then have di: "distinct (map keypoint_id kps)"
    unfolding a(4) by (simp add: distinct_map)
  have em: "\<not> (pl \<noteq> None) \<longrightarrow> kps = []"
    using a(3) by (cases pl) auto
  have it: "\<forall>ls. pl = Some ls \<longrightarrow> length kps = length ls
              \<and> (\<forall>i < length ls. \<exists>name. get_keypoint_name (int i) = Inr name
                     \<and> kps ! i = keypoint (int i) name (ls ! i))"
    using a(3) a(5) by auto
  have len: "pose_contract env \<longrightarrow> (pl \<noteq> None \<longrightarrow> length kps = 33)"
    using p a(3) by (auto simp: pose_contract_def)
  then have "pose_contract env \<longrightarrow> (kps = [] \<longleftrightarrow> \<not> (pl \<noteq> None))"
    using em by auto
  with a(1) a(2) a(4) di em it len show ?thesis by blast
qed

text \<open>
  C5. Every result with \<open>success = True\<close> of either method comes from an image that was
  decoded (read from the path, or decoded from the base64 payload) and from the pose
  model's answer for it. Its keypoint ids are \<open>0, 1, ..., n - 1\<close> in this order, hence
  pairwise different; keypoint \<open>i\<close> carries the name of index \<open>i\<close> and the coordinates
  of the model's landmark \<open>i\<close>; \<open>pose_detected\<close> says whether the model answered with
  landmarks, and the list is empty when it is false. The pose model keeping its contract
  (33 landmarks or \<open>None\<close>), the list is empty exactly when \<open>pose_detected\<close> is false and
  has the 33 ids 0..32 otherwise.
\<close>

theorem keypoints_invariant:
  "(dict_get (fst (extract_keypoints env w p)) ''success'' = Some (JBool True) \<longrightarrow>
      (\<exists>img pl.
         imread env w p = Some img \<and> process env (cvtColor env img) = Inr pl
         \<and> (\<exists>kps b.
            dict_get (fst (extract_keypoints env w p)) ''keypoints'' = Some (JList kps)
            \<and> dict_get (fst (extract_keypoints env w p)) ''pose_detected'' = Some (JBool b)
            \<and> b = (pl \<noteq> None)
            \<and> map keypoint_id kps = map (\<lambda>i. Some (JInt (int i))) [0..<length kps]
            \<and> distinct (map keypoint_id kps)
            \<and> (\<not> b \<longrightarrow> kps = [])
            \<and> (\<forall>ls. pl = Some ls \<longrightarrow> length kps = length ls
                  \<and> (\<forall>i < length ls. \<exists>name. get_keypoint_name (int i) = Inr name
                         \<and> kps ! i = keypoint (int i) name (ls ! i)))
            \<and> (pose_contract env \<longrightarrow> (kps = [] \<longleftrightarrow> \<not> b) \<and> (b \<longrightarrow> length kps = 33)))))
   \<and> (dict_get (fst (extract_keypoints_from_base64 env w v)) ''success'' = Some (JBool True) \<longrightarrow>
      (\<exists>payload image_data img pl.
         base64_payload v = Inr payload \<and> b64decode env payload = Inr image_data
         \<and> imdecode env image_data = Inr (Some img)
         \<and> process env (cvtColor env img) = Inr pl
         \<and> (\<exists>kps b.
            dict_get (fst (extract_keypoints_from_base64 env w v)) ''keypoints'' = Some (JList kps)
            \<and> dict_get (fst (extract_keypoints_from_base64 env w v)) ''pose_detected'' = Some (JBool b)
            \<and> b = (pl \<noteq> None)
            \<and> map keypoint_id kps = map (\<lambda>i. Some (JInt (int i))) [0..<length kps]
            \<and> distinct (map keypoint_id kps)
            \<and> (\<not> b \<longrightarrow> kps = [])
            \<and> (\<forall>ls. pl = Some ls \<longrightarrow> length kps = length ls
                  \<and> (\<forall>i < length ls. \<exists>name. get_keypoint_name (int i) = Inr name
                         \<and> kps ! i = keypoint (int i) name (ls ! i)))
            \<and> (pose_contract env \<longrightarrow> (kps = [] \<longleftrightarrow> \<not> b) \<and> (b \<longrightarrow> length kps = 33)))))"
proof (intro conjI impI)
  assume "dict_get (fst (extract_keypoints env w p)) ''success'' = Some (JBool True)"
  from successful_result_origin [OF this] obtain img pl w' where
    o: "imread env w p = Some img"
    and pk: "process env (cvtColor env img) = Inr pl"
      "keypoints_data env w img pl = (Inr (fst (extract_keypoints env w p)), w')"
    by blast
  show "\<exists>img pl.
         imread env w p = Some img \<and> process env (cvtColor env img) = Inr pl
         \<and> (\<exists>kps b.
            dict_get (fst (extract_keypoints env w p)) ''keypoints'' = Some (JList kps)
            \<and> dict_get (fst (extract_keypoints env w p)) ''pose_detected'' = Some (JBool b)
            \<and> b = (pl \<noteq> None)
            \<and> map keypoint_id kps = map (\<lambda>i. Some (JInt (int i))) [0..<length kps]
            \<and> distinct (map keypoint_id kps)
            \<and> (\<not> b \<longrightarrow> kps = [])
            \<and> (\<forall>ls. pl = Some ls \<longrightarrow> length kps = length ls
                  \<and> (\<forall>i < length ls. \<exists>name. get_keypoint_name (int i) = Inr name
                         \<and> kps ! i = keypoint (int i) name (ls ! i)))
            \<and> (pose_contract env \<longrightarrow> (kps = [] \<longleftrightarrow> \<not> b) \<and> (b \<longrightarrow> length kps = 33)))"
  proof (rule exI [of _ img], rule exI [of _ pl], intro conjI)
    show "imread env w p = Some img" by (rule o)
    show "process env (cvtColor env img) = Inr pl" by (rule pk(1))
    show "(\<exists>kps b.
            dict_get (fst (extract_keypoints env w p)) ''keypoints'' = Some (JList kps)
            \<and> dict_get (fst (extract_keypoints env w p)) ''pose_detected'' = Some (JBool b)
            \<and> b = (pl \<noteq> None)
            \<and> map keypoint_id kps = map (\<lambda>i. Some (JInt (int i))) [0..<length kps]
            \<and> distinct (map keypoint_id kps)
            \<and> (\<not> b \<longrightarrow> kps = [])
            \<and> (\<forall>ls. pl = Some ls \<longrightarrow> length kps = length ls
                  \<and> (\<forall>i < length ls. \<exists>name. get_keypoint_name (int i) = Inr name
                         \<and> kps ! i = keypoint (int i) name (ls ! i)))
            \<and> (pose_contract env \<longrightarrow> (kps = [] \<longleftrightarrow> \<not> b) \<and> (b \<longrightarrow> length kps = 33)))"
      by (rule result_invariant [OF pk])
  qed
next
  assume "dict_get (fst (extract_keypoints_from_base64 env w v)) ''success'' = Some (JBool True)"
  from successful_base64_result_origin [OF this] obtain payload image_data img pl w' where
    o: "base64_payload v = Inr payload" "b64decode env payload = Inr image_data"
      "imdecode env image_data = Inr (Some img)"
    and pk: "process env (cvtColor env img) = Inr pl"
      "keypoints_data env w img pl = (Inr (fst (extract_keypoints_from_base64 env w v)), w')"
    by blast
  show "\<exists>payload image_data img pl.
         base64_payload v = Inr payload \<and> b64decode env payload = Inr image_data
         \<and> imdecode env image_data = Inr (Some img)
         \<and> process env (cvtColor env img) = Inr pl
         \<and> (\<exists>kps b.
            dict_get (fst (extract_keypoints_from_base64 env w v)) ''keypoints'' = Some (JList kps)
            \<and> dict_get (fst (extract_keypoints_from_base64 env w v)) ''pose_detected'' = Some (JBool b)
            \<and> b = (pl \<noteq> None)
            \<and> map keypoint_id kps = map (\<lambda>i. Some (JInt (int i))) [0..<length kps]
            \<and> distinct (map keypoint_id kps)
            \<and> (\<not> b \<longrightarrow> kps = [])
            \<and> (\<forall>ls. pl = Some ls \<longrightarrow> length kps = length ls
                  \<and> (\<forall>i < length ls. \<exists>name. get_keypoint_name (int i) = Inr name
                         \<and> kps ! i = keypoint (int i) name (ls ! i)))
            \<and> (pose_contract env \<longrightarrow> (kps = [] \<longleftrightarrow> \<not> b) \<and> (b \<longrightarrow> length kps = 33)))"
  proof (rule exI [of _ payload], rule exI [of _ image_data], rule exI [of _ img],
      rule exI [of _ pl], intro conjI)
    show "base64_payload v = Inr payload" by (rule o(1))
    show "b64decode env payload = Inr image_data" by (rule o(2))
    show "imdecode env image_data = Inr (Some img)" by (rule o(3))
    show "process env (cvtColor env img) = Inr pl" by (rule pk(1))
    show "(\<exists>kps b.
            dict_get (fst (extract_keypoints_from_base64 env w v)) ''keypoints'' = Some (JList kps)
            \<and> dict_get (fst (extract_keypoints_from_base64 env w v)) ''pose_detected'' = Some (JBool b)
            \<and> b = (pl \<noteq> None)
            \<and> map keypoint_id kps = map (\<lambda>i. Some (JInt (int i))) [0..<length kps]
            \<and> distinct (map keypoint_id kps)
            \<and> (\<not> b \<longrightarrow> kps = [])
            \<and> (\<forall>ls. pl = Some ls \<longrightarrow> length kps = length ls
                  \<and> (\<forall>i < length ls. \<exists>name. get_keypoint_name (int i) = Inr name
                         \<and> kps ! i = keypoint (int i) name (ls ! i)))
            \<and> (pose_contract env \<longrightarrow> (kps = [] \<longleftrightarrow> \<not> b) \<and> (b \<longrightarrow> length kps = 33)))"
      by (rule result_invariant [OF pk])
  qed
qed

lemma sample_contract: "pose_contract sample_env" "pose_contract blank_env"
  by (simp_all add: pose_contract_def blank_env_def sample_env_def sample_landmarks_def)

lemma sample_success:
  "dict_get (fst (extract_keypoints sample_env sample_world ''a.jpg'')) ''success''
     = Some (JBool True)"
proof -
  obtain kps where "keypoints_loop 0 sample_landmarks [] = Inr ([] @ kps)"
    using keypoints_loop_ids [of 0 sample_landmarks "[]"] by auto
  then have "\<exists>d w'. extract_keypoints_try sample_env sample_world ''a.jpg'' = (Inr d, w')"
    by (simp add: extract_keypoints_try_def imread_def sample_world_def sample_env_def
        keypoints_data_def now_def)
  then obtain d w' where t: "extract_keypoints_try sample_env sample_world ''a.jpg'' = (Inr d, w')"
    by blast
  then have "fst (extract_keypoints sample_env sample_world ''a.jpg'') = d"
    by (simp add: extract_keypoints_def)
  with success_of_try [OF t] show ?thesis by simp
qed

lemma sample_base64_success:
  "dict_get (fst (extract_keypoints_from_base64 sample_env sample_world
       (JStr ''data:image/jpeg;base64,/9g=''))) ''success'' = Some (JBool True)"
proof -
  have p: "base64_payload (JStr ''data:image/jpeg;base64,/9g='') = Inr ''/9g=''"
    by (simp add: base64_payload_def list_item_def)
  obtain kps where "keypoints_loop 0 sample_landmarks [] = Inr ([] @ kps)"
    using keypoints_loop_ids [of 0 sample_landmarks "[]"] by auto
  then have "\<exists>d w'. extract_keypoints_from_base64_try sample_env sample_world
      (JStr ''data:image/jpeg;base64,/9g='') = (Inr d, w')"
    by (simp add: extract_keypoints_from_base64_try_def p sample_env_def
        keypoints_data_def now_def)
  then obtain d w' where t: "extract_keypoints_from_base64_try sample_env sample_world
      (JStr ''data:image/jpeg;base64,/9g='') = (Inr d, w')"
    by blast
  then have "fst (extract_keypoints_from_base64 sample_env sample_world
      (JStr ''data:image/jpeg;base64,/9g='')) = d"
    by (simp add: extract_keypoints_from_base64_def)
  with success_of_base64_try [OF t] show ?thesis by simp
qed

lemma blank_success:
  "dict_get (fst (extract_keypoints blank_env sample_world ''a.jpg'')) ''success''
     = Some (JBool True)"
  by (simp add: extract_keypoints_def extract_keypoints_try_def imread_def sample_world_def
      blank_env_def sample_env_def keypoints_data_def now_def dict_get_def)

lemma sample_keypoints_concrete:
  assumes pr: "process sample_env (cvtColor sample_env img) = Inr pl"
    and q: "\<exists>kps b.
            dict_get d ''keypoints'' = Some (JList kps)
            \<and> dict_get d ''pose_detected'' = Some (JBool b)
            \<and> b = (pl \<noteq> None)
            \<and> map keypoint_id kps = map (\<lambda>i. Some (JInt (int i))) [0..<length kps]
            \<and> distinct (map keypoint_id kps)
            \<and> (\<not> b \<longrightarrow> kps = [])
            \<and> (\<forall>ls. pl = Some ls \<longrightarrow> length kps = length ls
                  \<and> (\<forall>i < length ls. \<exists>name. get_keypoint_name (int i) = Inr name
                         \<and> kps ! i = keypoint (int i) name (ls ! i)))
            \<and> (pose_contract sample_env \<longrightarrow> (kps = [] \<longleftrightarrow> \<not> b) \<and> (b \<longrightarrow> length kps = 33))"
  shows "dict_get d ''pose_detected'' = Some (JBool True)
       \<and> (\<exists>kps. dict_get d ''keypoints'' = Some (JList kps) \<and> length kps = 33
              \<and> distinct (map keypoint_id kps)
              \<and> kps ! 0 = JDict [(''id'', JInt 0), (''name'', JStr ''NOSE''),
                     (''x'', JFloat 0), (''y'', JFloat (1 / 4)), (''z'', JFloat 0),
                     (''visibility'', JFloat 1)]
              \<and> kps ! 32 = JDict [(''id'', JInt 32), (''name'', JStr ''RIGHT_FOOT_INDEX''),
                     (''x'', JFloat 1), (''y'', JFloat (1 / 4)), (''z'', JFloat 0),
                     (''visibility'', JFloat 1)])"
proof -
  have pl: "pl = Some sample_landmarks"
    using pr by (simp add: sample_env_def)
  from q obtain kps b where
    k: "dict_get d ''keypoints'' = Some (JList kps)"
    and b: "dict_get d ''pose_detected'' = Some (JBool b)" "b = (pl \<noteq> None)"
    and di: "distinct (map keypoint_id kps)"
    and it: "\<forall>ls. pl = Some ls \<longrightarrow> length kps = length ls
                  \<and> (\<forall>i < length ls. \<exists>name. get_keypoint_name (int i) = Inr name
                         \<and> kps ! i = keypoint (int i) name (ls ! i))"
    and c: "pose_contract sample_env \<longrightarrow> (kps = [] \<longleftrightarrow> \<not> b) \<and> (b \<longrightarrow> length kps = 33)"
    by blast
  have bt: "b" using b(2) pl by simp
  have len: "length kps = 33"
    using c sample_contract(1) bt by blast
  have n: "length sample_landmarks = 33" by (simp add: sample_landmarks_def)
  from it pl have at: "\<forall>i < length sample_landmarks.
      \<exists>name. get_keypoint_name (int i) = Inr name
         \<and> kps ! i = keypoint (int i) name (sample_landmarks ! i)"
    by blast
  have g: "get_keypoint_name 0 = Inr ''NOSE''" "get_keypoint_name 32 = Inr ''RIGHT_FOOT_INDEX''"
    by (simp_all add: get_keypoint_name_def list_item_def keypoint_names_def)
  have l: "sample_landmarks ! 0 = \<lparr>lm_x = 0, lm_y = 1 / 4, lm_z = 0, lm_visibility = 1\<rparr>"
    "sample_landmarks ! 32 = \<lparr>lm_x = 1, lm_y = 1 / 4, lm_z = 0, lm_visibility = 1\<rparr>"
    by (simp_all add: sample_landmarks_def)
  from at [rule_format, of 0] n g(1)
  have k0: "kps ! 0 = keypoint 0 ''NOSE'' (sample_landmarks ! 0)" by auto
  from at [rule_format, of 32] n g(2)
  have k32: "kps ! 32 = keypoint 32 ''RIGHT_FOOT_INDEX'' (sample_landmarks ! 32)" by auto
  have "kps ! 0 = JDict [(''id'', JInt 0), (''name'', JStr ''NOSE''),
                     (''x'', JFloat 0), (''y'', JFloat (1 / 4)), (''z'', JFloat 0),
                     (''visibility'', JFloat 1)]"
    unfolding k0 l by (simp add: keypoint_def)
  moreover have "kps ! 32 = JDict [(''id'', JInt 32), (''name'', JStr ''RIGHT_FOOT_INDEX''),
                     (''x'', JFloat 1), (''y'', JFloat (1 / 4)), (''z'', JFloat 0),
                     (''visibility'', JFloat 1)]"
    unfolding k32 l by (simp add: keypoint_def)
  moreover have "dict_get d ''pose_detected'' = Some (JBool True)"
    using b(1) bt by simp
  ultimately show ?thesis
    using k len di by blast
qed

theorem keypoints_invariant_witness:
  "pose_contract sample_env \<and> pose_contract blank_env
   \<and> dict_get (fst (extract_keypoints sample_env sample_world ''a.jpg'')) ''success''
       = Some (JBool True)
   \<and> dict_get (fst (extract_keypoints sample_env sample_world ''a.jpg'')) ''pose_detected''
       = Some (JBool True)
   \<and> (\<exists>kps. dict_get (fst (extract_keypoints sample_env sample_world ''a.jpg'')) ''keypoints''
               = Some (JList kps)
          \<and> length kps = 33 \<and> distinct (map keypoint_id kps)
          \<and> kps ! 0 = JDict [(''id'', JInt 0), (''name'', JStr ''NOSE''),
                 (''x'', JFloat 0), (''y'', JFloat (1 / 4)), (''z'', JFloat 0),
                 (''visibility'', JFloat 1)]
          \<and> kps ! 32 = JDict [(''id'', JInt 32), (''name'', JStr ''RIGHT_FOOT_INDEX''),
                 (''x'', JFloat 1), (''y'', JFloat (1 / 4)), (''z'', JFloat 0),
                 (''visibility'', JFloat 1)])
   \<and> dict_get (fst (extract_keypoints_from_base64 sample_env sample_world
         (JStr ''data:image/jpeg;base64,/9g=''))) ''success'' = Some (JBool True)
   \<and> dict_get (fst (extract_keypoints_from_base64 sample_env sample_world
         (JStr ''data:image/jpeg;base64,/9g=''))) ''pose_detected'' = Some (JBool True)
   \<and> (\<exists>kps. dict_get (fst (extract_keypoints_from_base64 sample_env sample_world
                 (JStr ''data:image/jpeg;base64,/9g=''))) ''keypoints'' = Some (JList kps)
          \<and> length kps = 33 \<and> distinct (map keypoint_id kps)
          \<and> kps ! 0 = JDict [(''id'', JInt 0), (''name'', JStr ''NOSE''),
                 (''x'', JFloat 0), (''y'', JFloat (1 / 4)), (''z'', JFloat 0),
                 (''visibility'', JFloat 1)]
          \<and> kps ! 32 = JDict [(''id'', JInt 32), (''name'', JStr ''RIGHT_FOOT_INDEX''),
                 (''x'', JFloat 1), (''y'', JFloat (1 / 4)), (''z'', JFloat 0),
                 (''visibility'', JFloat 1)])
   \<and> dict_get (fst (extract_keypoints blank_env sample_world ''a.jpg'')) ''success''
       = Some (JBool True)
   \<and> dict_get (fst (extract_keypoints blank_env sample_world ''a.jpg'')) ''pose_detected''
       = Some (JBool False)
   \<and> dict_get (fst (extract_keypoints blank_env sample_world ''a.jpg'')) ''keypoints''
       = Some (JList [])"
proof -
  let ?b64 = "JStr ''data:image/jpeg;base64,/9g=''"
  note t = keypoints_invariant [of sample_env sample_world "''a.jpg''" ?b64]
  from t [THEN conjunct1, rule_format, OF sample_success]
  obtain img pl where
    f: "imread sample_env sample_world ''a.jpg'' = Some img
      \<and> process sample_env (cvtColor sample_env img) = Inr pl
      \<and> (\<exists>kps b.
       dict_get (fst (extract_keypoints sample_env sample_world ''a.jpg'')) ''keypoints'' = Some (JList kps)
       \<and> dict_get (fst (extract_keypoints sample_env sample_world ''a.jpg'')) ''pose_detected'' = Some (JBool b)
       \<and> b = (pl \<noteq> None)
       \<and> map keypoint_id kps = map (\<lambda>i. Some (JInt (int i))) [0..<length kps]
       \<and> distinct (map keypoint_id kps)
       \<and> (\<not> b \<longrightarrow> kps = [])
       \<and> (\<forall>ls. pl = Some ls \<longrightarrow> length kps = length ls
             \<and> (\<forall>i < length ls. \<exists>name. get_keypoint_name (int i) = Inr name
                    \<and> kps ! i = keypoint (int i) name (ls ! i)))
       \<and> (pose_contract sample_env \<longrightarrow> (kps = [] \<longleftrightarrow> \<not> b) \<and> (b \<longrightarrow> length kps = 33)))"
    by (elim exE) (rule that)
  note path = sample_keypoints_concrete [OF f [THEN conjunct2, THEN conjunct1]
      f [THEN conjunct2, THEN conjunct2]]
  from t [THEN conjunct2, rule_format, OF sample_base64_success]
  obtain payload image_data img' pl' where
    g: "base64_payload ?b64 = Inr payload \<and> b64decode sample_env payload = Inr image_data
      \<and> imdecode sample_env image_data = Inr (Some img')
      \<and> process sample_env (cvtColor sample_env img') = Inr pl'
      \<and> (\<exists>kps b.
       dict_get (fst (extract_keypoints_from_base64 sample_env sample_world ?b64)) ''keypoints'' = Some (JList kps)
       \<and> dict_get (fst (extract_keypoints_from_base64 sample_env sample_world ?b64)) ''pose_detected'' = Some (JBool b)
       \<and> b = (pl' \<noteq> None)
       \<and> map keypoint_id kps = map (\<lambda>i. Some (JInt (int i))) [0..<length kps]
       \<and> distinct (map keypoint_id kps)
       \<and> (\<not> b \<longrightarrow> kps = [])
       \<and> (\<forall>ls. pl' = Some ls \<longrightarrow> length kps = length ls
             \<and> (\<forall>i < length ls. \<exists>name. get_keypoint_name (int i) = Inr name
                    \<and> kps ! i = keypoint (int i) name (ls ! i)))
       \<and> (pose_contract sample_env \<longrightarrow> (kps = [] \<longleftrightarrow> \<not> b) \<and> (b \<longrightarrow> length kps = 33)))"
    by (elim exE) (rule that)
  note b64 = sample_keypoints_concrete
      [OF g [THEN conjunct2, THEN conjunct2, THEN conjunct2, THEN conjunct1]
          g [THEN conjunct2, THEN conjunct2, THEN conjunct2, THEN conjunct2]]
  from keypoints_invariant [of blank_env sample_world "''a.jpg''" JNull, THEN conjunct1,
      rule_format, OF blank_success]
  obtain img'' pl'' where
    h: "imread blank_env sample_world ''a.jpg'' = Some img''
      \<and> process blank_env (cvtColor blank_env img'') = Inr pl''
      \<and> (\<exists>kps b.
       dict_get (fst (extract_keypoints blank_env sample_world ''a.jpg'')) ''keypoints'' = Some (JList kps)
       \<and> dict_get (fst (extract_keypoints blank_env sample_world ''a.jpg'')) ''pose_detected'' = Some (JBool b)
       \<and> b = (pl'' \<noteq> None)
       \<and> map keypoint_id kps = map (\<lambda>i. Some (JInt (int i))) [0..<length kps]
       \<and> distinct (map keypoint_id kps)
       \<and> (\<not> b \<longrightarrow> kps = [])
       \<and> (\<forall>ls. pl'' = Some ls \<longrightarrow> length kps = length ls
             \<and> (\<forall>i < length ls. \<exists>name. get_keypoint_name (int i) = Inr name
                    \<and> kps ! i = keypoint (int i) name (ls ! i)))
       \<and> (pose_contract blank_env \<longrightarrow> (kps = [] \<longleftrightarrow> \<not> b) \<and> (b \<longrightarrow> length kps = 33)))"
    by (elim exE) (rule that)
  from h have "pl'' = None" by (simp add: blank_env_def)
  with h [THEN conjunct2, THEN conjunct2] have blank:
    "dict_get (fst (extract_keypoints blank_env sample_world ''a.jpg'')) ''pose_detected''
         = Some (JBool False)"
    "dict_get (fst (extract_keypoints blank_env sample_world ''a.jpg'')) ''keypoints''
         = Some (JList [])"
    by auto
  from path b64 blank sample_contract sample_success sample_base64_success blank_success
  show ?thesis by blast
qed

subsection \<open>Input that is not an image\<close>



subsection \<open>Status codes of POST /extract-pose\<close>

text \<open>
  C7 fails on a request with neither input: with no \<open>image\<close> part and no JSON body,
  \<open>request.json\<close> is \<open>None\<close> (or raises), the test \<open>'base64_image' in request.json\<close>
  raises, and the handler answers 500 where the claim, and the handler's own last
  branch, say 400.
\<close>

theorem extract_pose_api_without_input:
  "extract_pose_api env w \<lparr>files = [], get_json = Inr JNull\<rparr>
     = error_500 env w (TypeError ''argument of type NoneType is not iterable'')
   \<and> status (fst (extract_pose_api env w \<lparr>files = [], get_json = Inr JNull\<rparr>)) = 500
   \<and> extract_pose_api env w \<lparr>files = [], get_json = Inl e\<rparr> = error_500 env w e
   \<and> status (fst (extract_pose_api env w \<lparr>files = [], get_json = Inl e\<rparr>)) = 500"
  by (simp add: extract_pose_api_def extract_pose_api_try_def error_500_def failure_dict_def
      now_def json_response_def)

lemma extract_pose_api_400:
  "map_of (files req) ''image'' = Some file \<Longrightarrow> filename file = [] \<Longrightarrow>
     status (fst (extract_pose_api env w req)) = 400"
  "map_of (files req) ''image'' = None \<Longrightarrow> get_json req = Inr (JDict d) \<Longrightarrow>
     map_of d ''base64_image'' = None \<Longrightarrow> status (fst (extract_pose_api env w req)) = 400"
  by (simp_all add: extract_pose_api_def extract_pose_api_try_def json_response_def)

lemma extract_pose_api_base64:
  "map_of (files req) ''image'' = None \<Longrightarrow> get_json req = Inr (JDict d) \<Longrightarrow>
     map_of d ''base64_image'' = Some v \<Longrightarrow>
     fst (extract_pose_api env w req)
       = json_response (fst (extract_keypoints_from_base64 env w v)) 200"
  by (simp add: extract_pose_api_def extract_pose_api_try_def split: prod.splits)

subsection \<open>The command line\<close>

text \<open>
  C8, as amended. In CLI mode a missing (or empty) \<open>--image\<close> and an image file that
  does not exist each print one error line and return without processing. When the
  image exists, that one image is processed; the JSON result is written to the
  \<open>--output\<close> path when one is given and the file can be created, and printed when none
  is given; when the output file cannot be created the exception leaves \<open>main\<close> before
  any visualization. With \<open>--visualize\<close>, after the output step \<open>visualize_pose\<close> runs on
  the image: when it succeeds its path is printed (and the file exists when it could be
  created); when it raises, the exception \<open>Visualization failed: ...\<close> leaves \<open>main\<close>.
\<close>

theorem main_cli:
  assumes "mode a = Cli"
  shows
   "(truthy (image_arg a) = None \<longrightarrow>
       main env w a = (None, print w ''Error: --image is required for CLI mode''))
    \<and> (\<forall>p. truthy (image_arg a) = Some p \<and> \<not> os_path_exists w p \<longrightarrow>
          main env w a = (None, print w (''Error: Image file not found: '' @ p)))
    \<and> (\<forall>p. truthy (image_arg a) = Some p \<and> os_path_exists w p \<longrightarrow>
          (\<not> visualize_arg a \<and> truthy (output_arg a) = None \<longrightarrow>
             fst (main env w a) = None
             \<and> stdout (snd (main env w a))
                 = stdout w @ [''Processing image: '' @ p,
                     json_dumps env (JDict (fst (extract_keypoints env
                        (print w (''Processing image: '' @ p)) p)))]
             \<and> fs (snd (main env w a)) = fs w)
        \<and> (\<forall>out. \<not> visualize_arg a \<and> truthy (output_arg a) = Some out \<and> can_create env out \<longrightarrow>
             fst (main env w a) = None
             \<and> stdout (snd (main env w a))
                 = stdout w @ [''Processing image: '' @ p, ''Results saved to: '' @ out]
             \<and> fs (snd (main env w a))
                 = (fs w)(out \<mapsto> encode_text (json_dumps env (JDict (fst (extract_keypoints env
                        (print w (''Processing image: '' @ p)) p))))))
        \<and> (\<forall>out. truthy (output_arg a) = Some out \<and> \<not> can_create env out \<longrightarrow>
             (\<exists>m. fst (main env w a) = Some (OSError m))
             \<and> stdout (snd (main env w a)) = stdout w @ [''Processing image: '' @ p]
             \<and> fs (snd (main env w a)) = fs w)
        \<and> (\<forall>w3. visualize_arg a \<and> main env w (a\<lparr>visualize_arg := False\<rparr>) = (None, w3) \<longrightarrow>
             (\<forall>viz w4. visualize_pose env w3 p = (Inr viz, w4) \<longrightarrow>
                main env w a = (None, print w4 (''Visualization saved to: '' @ viz))
                \<and> stdout w4 = stdout w3
                \<and> (can_create env viz \<longrightarrow> fs w4 viz \<noteq> None))
           \<and> (\<forall>e w4. visualize_pose env w3 p = (Inl e, w4) \<longrightarrow>
                main env w a = (Some e, w4)
                \<and> (\<exists>m. e = Exception (''Visualization failed: '' @ m)))))"
proof (intro conjI allI impI)
  assume "truthy (image_arg a) = None"
  then show "main env w a = (None, print w ''Error: --image is required for CLI mode'')"
    using assms by (rule main_no_image [rotated])
next
  fix p assume "truthy (image_arg a) = Some p \<and> \<not> os_path_exists w p"
  then show "main env w a = (None, print w (''Error: Image file not found: '' @ p))"
    using assms by (simp add: main_missing_file)
next
  fix p
  assume e: "truthy (image_arg a) = Some p \<and> os_path_exists w p"
    and o: "\<not> visualize_arg a \<and> truthy (output_arg a) = None"
  from main_print_stdout [of a p w env] assms e o
  show "fst (main env w a) = None"
    "stdout (snd (main env w a))
       = stdout w @ [''Processing image: '' @ p,
           json_dumps env (JDict (fst (extract_keypoints env
              (print w (''Processing image: '' @ p)) p)))]"
    "fs (snd (main env w a)) = fs w"
    by simp_all
next
  fix p out
  assume e: "truthy (image_arg a) = Some p \<and> os_path_exists w p"
    and o: "\<not> visualize_arg a \<and> truthy (output_arg a) = Some out \<and> can_create env out"
  from main_write_file [of a p w out env] assms e o
  show "fst (main env w a) = None"
    "stdout (snd (main env w a))
       = stdout w @ [''Processing image: '' @ p, ''Results saved to: '' @ out]"
    "fs (snd (main env w a))
       = (fs w)(out \<mapsto> encode_text (json_dumps env (JDict (fst (extract_keypoints env
              (print w (''Processing image: '' @ p)) p)))))"
    by simp_all
next
  fix p out
  assume e: "truthy (image_arg a) = Some p \<and> os_path_exists w p"
    and o: "truthy (output_arg a) = Some out \<and> \<not> can_create env out"
  from main_write_fails [of a p w out env] assms e o
  show "\<exists>m. fst (main env w a) = Some (OSError m)"
    "stdout (snd (main env w a)) = stdout w @ [''Processing image: '' @ p]"
    "fs (snd (main env w a)) = fs w"
    by simp_all
next
  fix p w3 viz w4
  assume e: "truthy (image_arg a) = Some p \<and> os_path_exists w p"
    and v: "visualize_arg a \<and> main env w (a\<lparr>visualize_arg := False\<rparr>) = (None, w3)"
    and s: "visualize_pose env w3 p = (Inr viz, w4)"
  from main_then_visualize [of a p w env w3] assms e v s
  show "main env w a = (None, print w4 (''Visualization saved to: '' @ viz))"
    by simp
  from visualize_pose_success [OF s]
  show "stdout w4 = stdout w3" by blast
  assume "can_create env viz"
  with visualize_pose_success [OF s] show "fs w4 viz \<noteq> None" by blast
next
  fix p w3 e w4
  assume i: "truthy (image_arg a) = Some p \<and> os_path_exists w p"
    and v: "visualize_arg a \<and> main env w (a\<lparr>visualize_arg := False\<rparr>) = (None, w3)"
    and s: "visualize_pose env w3 p = (Inl e, w4)"
  from main_then_visualize [of a p w env w3] assms i v s
  show "main env w a = (Some e, w4)"
    by simp
  from visualize_pose_failure [OF s]
  show "\<exists>m. e = Exception (''Visualization failed: '' @ m)" .
qed

theorem main_cli_witness:
  "main sample_env sample_world (sample_args\<lparr>image_arg := None\<rparr>)
      = (None, print sample_world ''Error: --image is required for CLI mode'')
   \<and> main sample_env sample_world (sample_args\<lparr>image_arg := Some ''gone.jpg''\<rparr>)
      = (None, print sample_world ''Error: Image file not found: gone.jpg'')
   \<and> fst (main sample_env sample_world
            (sample_args\<lparr>image_arg := Some ''a.jpg'', output_arg := Some ''out.json'',
                         visualize_arg := False\<rparr>)) = None
   \<and> stdout (snd (main sample_env sample_world
            (sample_args\<lparr>image_arg := Some ''a.jpg'', output_arg := Some ''out.json'',
                         visualize_arg := False\<rparr>)))
       = [''Processing image: a.jpg'', ''Results saved to: out.json'']
   \<and> (\<exists>m. fst (main sample_env sample_world
            (sample_args\<lparr>image_arg := Some ''a.jpg'', output_arg := Some ''d/out.json''\<rparr>))
          = Some (OSError m))
   \<and> (\<exists>viz w4. main sample_env sample_world (sample_args\<lparr>image_arg := Some ''a.jpg''\<rparr>)
          = (None, print w4 (''Visualization saved to: '' @ viz)))
   \<and> (\<exists>m w4. main sample_env sample_world sample_args
          = (Some (Exception (''Visualization failed: '' @ m)), w4))"
proof -
  let ?none = "sample_args\<lparr>image_arg := None\<rparr>"
  let ?gone = "sample_args\<lparr>image_arg := Some ''gone.jpg''\<rparr>"
  let ?file = "sample_args\<lparr>image_arg := Some ''a.jpg'', output_arg := Some ''out.json'',
                         visualize_arg := False\<rparr>"
  let ?bad = "sample_args\<lparr>image_arg := Some ''a.jpg'', output_arg := Some ''d/out.json''\<rparr>"
  let ?viz = "sample_args\<lparr>image_arg := Some ''a.jpg''\<rparr>"
  have 1: "main sample_env sample_world ?none
      = (None, print sample_world ''Error: --image is required for CLI mode'')"
    using main_cli [of ?none sample_env sample_world] by (simp add: sample_args_def)
  have 2: "main sample_env sample_world ?gone
      = (None, print sample_world ''Error: Image file not found: gone.jpg'')"
    using main_cli [of ?gone sample_env sample_world] sample_exists
    by (simp add: sample_args_def)
  have c: "can_create sample_env ''out.json''" "\<not> can_create sample_env ''d/out.json''"
    by (simp_all add: sample_env_def)
  have 3: "fst (main sample_env sample_world ?file) = None
      \<and> stdout (snd (main sample_env sample_world ?file))
          = [''Processing image: a.jpg'', ''Results saved to: out.json'']"
    using main_cli [of ?file sample_env sample_world] sample_exists c
    by (simp add: sample_args_def sample_world_def)
  have 4: "\<exists>m. fst (main sample_env sample_world ?bad) = Some (OSError m)"
    using main_cli [of ?bad sample_env sample_world] sample_exists c
    by (simp add: sample_args_def)
  have off: "?viz\<lparr>visualize_arg := False\<rparr>
      = sample_args\<lparr>image_arg := Some ''a.jpg'', visualize_arg := False\<rparr>"
    "sample_args\<lparr>visualize_arg := False\<rparr> = sample_args\<lparr>visualize_arg := False\<rparr>"
    by simp_all
  have 5: "\<exists>viz w4. main sample_env sample_world ?viz
          = (None, print w4 (''Visualization saved to: '' @ viz))"
  proof -
    let ?off = "?viz\<lparr>visualize_arg := False\<rparr>"
    have p: "fst (main sample_env sample_world ?off) = None
        \<and> fs (snd (main sample_env sample_world ?off)) = fs sample_world"
      using main_cli [of ?off sample_env sample_world] sample_exists
      by (simp add: sample_args_def)
    then have m: "main sample_env sample_world ?off
        = (None, snd (main sample_env sample_world ?off))"
      by (metis prod.collapse)
    have "fs (snd (main sample_env sample_world ?off)) ''a.jpg'' = Some [0xFF, 0xD8]"
      using p by (simp add: sample_world_def)
    from visualize_pose_sample [OF this] obtain viz w4 where
      v: "visualize_pose sample_env (snd (main sample_env sample_world ?off)) ''a.jpg''
            = (Inr viz, w4)"
      by blast
    have "main sample_env sample_world ?viz
        = (None, print w4 (''Visualization saved to: '' @ viz))"
      using main_cli [of ?viz sample_env sample_world] sample_exists m v
      by (simp add: sample_args_def)
    then show ?thesis by blast
  qed
  have 6: "\<exists>m w4. main sample_env sample_world sample_args
          = (Some (Exception (''Visualization failed: '' @ m)), w4)"
  proof -
    let ?off = "sample_args\<lparr>visualize_arg := False\<rparr>"
    have p: "fst (main sample_env sample_world ?off) = None
        \<and> fs (snd (main sample_env sample_world ?off)) = fs sample_world"
      using main_cli [of ?off sample_env sample_world] sample_exists
      by (simp add: sample_args_def)
    then have m: "main sample_env sample_world ?off
        = (None, snd (main sample_env sample_world ?off))"
      by (metis prod.collapse)
    have "fs (snd (main sample_env sample_world ?off)) ''notes.txt'' = Some [0x41, 0x42, 0x43]"
      using p by (simp add: sample_world_def)
    from visualize_pose_sample_fails [OF this] obtain e w4 where
      v: "visualize_pose sample_env (snd (main sample_env sample_world ?off)) ''notes.txt''
            = (Inl e, w4)"
      by blast
    have "main sample_env sample_world sample_args = (Some e, w4)
        \<and> (\<exists>m. e = Exception (''Visualization failed: '' @ m))"
      using main_cli [of sample_args sample_env sample_world] sample_exists m v
      by (simp add: sample_args_def)
    then show ?thesis by blast
  qed
  from 1 2 3 4 5 6 show ?thesis by blast
qed

text \<open>
  C8 as stated fails: for an image file that exists but cannot be decoded,
  \<open>--visualize\<close> ends in an uncaught exception and prints no visualization path.
\<close>

theorem main_visualize_counterexample:
  "\<not> (\<forall>env w a p. mode a = Cli \<and> image_arg a = Some p \<and> os_path_exists w p \<and> visualize_arg a \<longrightarrow>
          fst (main env w a) = None
          \<and> (\<exists>viz. last (stdout (snd (main env w a))) = ''Visualization saved to: '' @ viz))"
proof
  assume "\<forall>env w a p. mode a = Cli \<and> image_arg a = Some p \<and> os_path_exists w p \<and> visualize_arg a \<longrightarrow>
          fst (main env w a) = None
          \<and> (\<exists>viz. last (stdout (snd (main env w a))) = ''Visualization saved to: '' @ viz)"
  then have "mode sample_args = Cli \<and> image_arg sample_args = Some ''notes.txt''
      \<and> os_path_exists sample_world ''notes.txt'' \<and> visualize_arg sample_args \<longrightarrow>
        fst (main sample_env sample_world sample_args) = None"
    by blast
  then have "fst (main sample_env sample_world sample_args) = None"
    by (simp add: sample_args_def sample_exists)
  moreover have "fst (main sample_env sample_world sample_args)
      = Some (Exception
          ''Visualization failed: (-215:Assertion failed) !_src.empty() in function cvtColor'')"
  proof -
    let ?w1 = "print sample_world (''Processing image: '' @ ''notes.txt'')"
    let ?r = "fst (extract_keypoints sample_env ?w1 ''notes.txt'')"
    let ?w2 = "snd (extract_keypoints sample_env ?w1 ''notes.txt'')"
    let ?w3 = "print ?w2 (json_dumps sample_env (JDict ?r))"
    have o: "main_output sample_env ?w2 sample_args ?r = (None, ?w3)"
      by (simp add: main_output_def sample_args_def)
    have "fs ?w3 = fs sample_world"
      by (simp add: print_def fs_extract_keypoints)
    then have "imread sample_env ?w3 ''notes.txt'' = None"
      by (simp add: imread_def sample_world_def sample_env_def)
    then have v: "visualize_pose sample_env ?w3 ''notes.txt''
        = (Inl (Exception
            ''Visualization failed: (-215:Assertion failed) !_src.empty() in function cvtColor''),
           ?w3)"
      by (simp add: visualize_pose_def visualize_pose_try_def)
    have "main sample_env sample_world sample_args
        = main_visualize sample_env ?w3 sample_args ''notes.txt''"
      using o
      by (subst main_existing [of _ "''notes.txt''"])
         (simp_all add: sample_args_def sample_exists)
    then show ?thesis
      using v by (simp add: main_visualize_def sample_args_def)
  qed
  ultimately show False by simp
qed

subsection \<open>Totality of the two extraction methods\<close>

text \<open>
  C9. \<open>extract_keypoints\<close> and \<open>extract_keypoints_from_base64\<close> answer every input
  (any path, any value passed as \<open>base64_image\<close>) with a dictionary that has a boolean
  \<open>success\<close> and a \<open>timestamp\<close>; no exception leaves them, since both are functions
  into dictionaries whose \<open>except Exception\<close> clause turns every exception of the
  \<open>try\<close> block into a result. Whenever the block raises \<open>e\<close>, the result has
  \<open>success = False\<close> and \<open>error = str(e)\<close>.
\<close>

theorem extract_keypoints_total:
  "(\<exists>b t. dict_get (fst (extract_keypoints env w p)) ''success'' = Some (JBool b)
        \<and> dict_get (fst (extract_keypoints env w p)) ''timestamp'' = Some (JStr t))
   \<and> (\<exists>b t. dict_get (fst (extract_keypoints_from_base64 env w v)) ''success'' = Some (JBool b)
        \<and> dict_get (fst (extract_keypoints_from_base64 env w v)) ''timestamp'' = Some (JStr t))
   \<and> (\<forall>e. fst (extract_keypoints_try env w p) = Inl e \<longrightarrow>
         dict_get (fst (extract_keypoints env w p)) ''success'' = Some (JBool False)
         \<and> dict_get (fst (extract_keypoints env w p)) ''error'' = Some (JStr (str_error e)))
   \<and> (\<forall>e. fst (extract_keypoints_from_base64_try env w v) = Inl e \<longrightarrow>
         dict_get (fst (extract_keypoints_from_base64 env w v)) ''success'' = Some (JBool False)
         \<and> dict_get (fst (extract_keypoints_from_base64 env w v)) ''error''
             = Some (JStr (str_error e)))"
proof (intro conjI allI impI)
  show "\<exists>b t. dict_get (fst (extract_keypoints env w p)) ''success'' = Some (JBool b)
        \<and> dict_get (fst (extract_keypoints env w p)) ''timestamp'' = Some (JStr t)"
    using extract_keypoints_cases [of env w p] success_of_try [of env w p]
    by (auto simp: failure_dict_fields)
  show "\<exists>b t. dict_get (fst (extract_keypoints_from_base64 env w v)) ''success'' = Some (JBool b)
        \<and> dict_get (fst (extract_keypoints_from_base64 env w v)) ''timestamp'' = Some (JStr t)"
    using extract_keypoints_from_base64_cases [of env w v] success_of_base64_try [of env w v]
    by (auto simp: failure_dict_fields)
next
  fix e assume "fst (extract_keypoints_try env w p) = Inl e"
  then show "dict_get (fst (extract_keypoints env w p)) ''success'' = Some (JBool False)"
    "dict_get (fst (extract_keypoints env w p)) ''error'' = Some (JStr (str_error e))"
    using extract_keypoints_cases [of env w p] by (auto simp: failure_dict_fields)
next
  fix e assume "fst (extract_keypoints_from_base64_try env w v) = Inl e"
  then show "dict_get (fst (extract_keypoints_from_base64 env w v)) ''success'' = Some (JBool False)"
    "dict_get (fst (extract_keypoints_from_base64 env w v)) ''error'' = Some (JStr (str_error e))"
    using extract_keypoints_from_base64_cases [of env w v] by (auto simp: failure_dict_fields)
qed

lemma sample_try_missing:
  "fst (extract_keypoints_try sample_env sample_world ''gone.jpg'')
     = Inl (ValueError ''Could not read image from gone.jpg'')"
  by (simp add: extract_keypoints_try_def imread_def sample_world_def)

lemma sample_base64_try_bad:
  "fst (extract_keypoints_from_base64_try sample_env sample_world (JStr ''data:,QUJD''))
     = Inl (ValueError ''Could not decode base64 image'')"
  by (simp add: extract_keypoints_from_base64_try_def base64_payload_def list_item_def
        sample_env_def)

theorem extract_keypoints_total_witness:
  "dict_get (fst (extract_keypoints sample_env sample_world ''gone.jpg'')) ''success''
     = Some (JBool False)
   \<and> dict_get (fst (extract_keypoints sample_env sample_world ''gone.jpg'')) ''error''
     = Some (JStr ''Could not read image from gone.jpg'')
   \<and> dict_get (fst (extract_keypoints_from_base64 sample_env sample_world (JStr ''data:,QUJD'')))
        ''error'' = Some (JStr ''Could not decode base64 image'')"
  using extract_keypoints_total [of sample_env sample_world "''gone.jpg''" "JStr ''data:,QUJD''"]
    sample_try_missing sample_base64_try_bad
  by simp

subsection \<open>Order of the batch results\<close>

text \<open>
  C10. Whenever the response carries a \<open>results\<close> array, its \<open>i\<close>-th element is the
  result for the \<open>i\<close>-th uploaded file with a non-empty filename: the extraction run on
  a temporary file holding that upload's content, annotated with its filename. So the
  filenames in \<open>results\<close> appear in upload order.
\<close>

theorem batch_extract_api_order:
  assumes "dict_get (body (fst (batch_extract_api env w req))) ''results'' = Some (JList js)"
  shows "list_all2
           (\<lambda>f j. \<exists>w0 t. fs w0 (temp_name env ''temp_'' t (filename f)) = Some (content f)
                \<and> j = JDict (dict_set ''filename'' (JStr (filename f))
                         (fst (extract_keypoints env w0 (temp_name env ''temp_'' t (filename f))))))
           (filter (\<lambda>f. filename f \<noteq> []) (getlist (files req) ''images'')) js
       \<and> length js = length (filter (\<lambda>f. filename f \<noteq> []) (getlist (files req) ''images''))
       \<and> (\<forall>i < length js. \<exists>d. js ! i = JDict d
             \<and> dict_get d ''filename''
                 = Some (JStr (filename
                     (filter (\<lambda>f. filename f \<noteq> []) (getlist (files req) ''images'') ! i))))"
proof -
  let ?fl = "filter (\<lambda>f. filename f \<noteq> []) (getlist (files req) ''images'')"
  from batch_results_origin [OF assms] obtain rs w1 where
    b: "batch_loop env w (getlist (files req) ''images'') [] = (Inr rs, w1)"
    and j: "js = map JDict rs"
    by blast
  from batch_loop_results [OF b]
  have l: "list_all2
             (\<lambda>f r. \<exists>w0 t. fs w0 (temp_name env ''temp_'' t (filename f)) = Some (content f)
                  \<and> r = dict_set ''filename'' (JStr (filename f))
                          (fst (extract_keypoints env w0 (temp_name env ''temp_'' t (filename f)))))
             ?fl rs"
    by simp
  have 1: "list_all2
           (\<lambda>f j. \<exists>w0 t. fs w0 (temp_name env ''temp_'' t (filename f)) = Some (content f)
                \<and> j = JDict (dict_set ''filename'' (JStr (filename f))
                         (fst (extract_keypoints env w0 (temp_name env ''temp_'' t (filename f))))))
           ?fl js"
    unfolding j list_all2_map2 using l by (rule list_all2_mono) auto
  have 2: "length js = length ?fl"
    using list_all2_lengthD [OF 1] by simp
  have 3: "\<forall>i < length js. \<exists>d. js ! i = JDict d
             \<and> dict_get d ''filename'' = Some (JStr (filename (?fl ! i)))"
  proof (intro allI impI)
    fix i assume i: "i < length js"
    from list_all2_nthD2 [OF 1 i]
    show "\<exists>d. js ! i = JDict d \<and> dict_get d ''filename'' = Some (JStr (filename (?fl ! i)))"
      by (auto simp: dict_get_dict_set)
  qed
  from 1 2 3 show ?thesis by blast
qed

theorem batch_extract_api_order_witness:
  "\<exists>js. dict_get (body (fst (batch_extract_api sample_env sample_world sample_batch))) ''results''
           = Some (JList js)
      \<and> length js = 2
      \<and> (\<exists>d. js ! 0 = JDict d \<and> dict_get d ''filename'' = Some (JStr ''a.jpg''))
      \<and> (\<exists>d. js ! 1 = JDict d \<and> dict_get d ''filename'' = Some (JStr ''notes.txt''))"
proof -
  obtain rs w1 where
    b: "batch_loop sample_env sample_world (getlist (files sample_batch) ''images'') []
          = (Inr rs, w1)"
    using batch_loop_succeeds [of "getlist (files sample_batch) ''images''" sample_env
        sample_world "[]"] sample_batch_creatable
    by blast
  have r: "dict_get (body (fst (batch_extract_api sample_env sample_world sample_batch)))
      ''results'' = Some (JList (map JDict rs))"
    using batch_extract_api_cases [of sample_batch sample_env sample_world] b
      sample_batch_creatable
    by (auto simp: json_response_def dict_get_def)
  have f: "filter (\<lambda>f. filename f \<noteq> []) (getlist (files sample_batch) ''images'')
      = [\<lparr>filename = ''a.jpg'', content = [0xFF, 0xD8]\<rparr>,
         \<lparr>filename = ''notes.txt'', content = [0x41, 0x42, 0x43]\<rparr>]"
    by (simp add: sample_batch_files)
  from batch_extract_api_order [OF r]
  have l: "length (map JDict rs) = 2"
    and n: "\<forall>i < length (map JDict rs). \<exists>d. map JDict rs ! i = JDict d
             \<and> dict_get d ''filename''
                 = Some (JStr (filename
                     ([\<lparr>filename = ''a.jpg'', content = [0xFF, 0xD8]\<rparr>,
                       \<lparr>filename = ''notes.txt'', content = [0x41, 0x42, 0x43]\<rparr>] ! i)))"
    unfolding f by simp_all
  from n l have "\<exists>d. map JDict rs ! 0 = JDict d \<and> dict_get d ''filename'' = Some (JStr ''a.jpg'')"
    "\<exists>d. map JDict rs ! 1 = JDict d \<and> dict_get d ''filename'' = Some (JStr ''notes.txt'')"
    by force+
  with r l show ?thesis by blast
qed

end
